theory Spec2Isabelle
  imports Complex_Main "HOL-Library.Word"
begin

text \<open>
  The request handlers of the portfolio chat SDK (the Manual RAG handler, the proxied Memory
  Router handler, the read-only backend handler), the upload helper and the part of the chat
  widget that reads a streamed response, as functions. A handler maps what it receives (the
  request, and what its collaborators answer) to its response and to the list of calls it
  made; the session store of the Manual RAG handler is passed in and returned.
\<close>

section \<open>JavaScript strings\<close>

text \<open>
  A JavaScript string is a sequence of UTF-16 code units. String literals of the source
  are ASCII and are written with \<open>lit\<close>. \<open>String.prototype.trim\<close> removes the
  ECMAScript WhiteSpace and LineTerminator code points from both ends; all of them lie
  in the basic multilingual plane, so one code unit each.
\<close>

type_synonym jsstring = "16 word list"

definition lit :: "string \<Rightarrow> jsstring" where
  "lit s = map (\<lambda>c. of_nat (of_char c)) s"

definition isWhiteSpace :: "16 word \<Rightarrow> bool" where
  "isWhiteSpace c =
     (c = 0x0009 \<or> c = 0x000A \<or> c = 0x000B \<or> c = 0x000C \<or> c = 0x000D \<or> c = 0x0020
      \<or> c = 0x00A0 \<or> c = 0x1680 \<or> (0x2000 \<le> c \<and> c \<le> 0x200A)
      \<or> c = 0x2028 \<or> c = 0x2029 \<or> c = 0x202F \<or> c = 0x205F \<or> c = 0x3000 \<or> c = 0xFEFF)"

definition trim :: "jsstring \<Rightarrow> jsstring" where
  "trim s = rev (dropWhile isWhiteSpace (rev (dropWhile isWhiteSpace s)))"

text \<open>
  An optional string field: \<open>None\<close> is \<open>undefined\<close> or \<open>null\<close>. Such a value is
  falsy when it is absent or the empty string; \<open>v || d\<close> is \<open>or_default v d\<close>.
\<close>

definition truthy :: "jsstring option \<Rightarrow> bool" where
  "truthy v = (case v of None \<Rightarrow> False | Some s \<Rightarrow> s \<noteq> [])"

definition or_default :: "jsstring option \<Rightarrow> jsstring \<Rightarrow> jsstring" where
  "or_default v d = (case v of None \<Rightarrow> d | Some s \<Rightarrow> if s = [] then d else s)"

text \<open>\<open>Array.prototype.join\<close> on an array of strings.\<close>

fun join :: "jsstring \<Rightarrow> jsstring list \<Rightarrow> jsstring" where
  "join sep [] = []"
| "join sep [x] = x"
| "join sep (x # y # ys) = x @ sep @ join sep (y # ys)"

text \<open>\<open>String.prototype.includes\<close>.\<close>

fun startsWith :: "jsstring \<Rightarrow> jsstring \<Rightarrow> bool" where
  "startsWith s [] = True"
| "startsWith [] (c # cs) = False"
| "startsWith (d # ds) (c # cs) = (d = c \<and> startsWith ds cs)"

fun includes_str :: "jsstring \<Rightarrow> jsstring \<Rightarrow> bool" where
  "includes_str [] t = (t = [])"
| "includes_str (d # ds) t = (startsWith (d # ds) t \<or> includes_str ds t)"

section \<open>Messages\<close>

text \<open>
  \<open>ChatMessage\<close> of \<open>utils/types\<close>. The role is a string at run time: the handlers
  compare it with string literals. The objects \<open>{ role, content }\<close> handed to the
  provider are \<open>out_message\<close>.
\<close>

record ChatMessage =
  role :: jsstring
  content :: jsstring
  timestamp :: "nat option"

record out_message =
  out_role :: jsstring
  out_content :: jsstring

text \<open>
  The read-only backend handler accepts, beyond the declared type, a \<open>null\<close> entry, a
  missing content and a content that is an array whose elements are strings or objects with
  an optional \<open>text\<close> field (\<open>PObject None\<close> is \<open>null\<close> or an object without text).
\<close>

datatype part = PString jsstring | PObject "jsstring option"

datatype content_value = CString jsstring | CArray "part list"

record hist_entry =
  he_role :: jsstring
  he_content :: "content_value option"

section \<open>History filtering\<close>

text \<open>
  createBackendHandler, step 4:
  \<^verbatim>\<open>Array.isArray(msg.content)
      ? msg.content.map(c => typeof c === 'string' ? c : (c?.text || '')).join(' ')
      : String(msg.content)\<close>
\<close>

fun partText :: "part \<Rightarrow> jsstring" where
  "partText (PString s) = s"
| "partText (PObject t) = or_default t []"

fun contentStr :: "content_value \<Rightarrow> jsstring" where
  "contentStr (CString s) = s"
| "contentStr (CArray ps) = join (lit '' '') (map partText ps)"

text \<open>
  The filter callback. \<open>!msg.content\<close> holds for a missing content and for the empty
  string; an array, also an empty one, is truthy.
\<close>

definition validRole :: "jsstring \<Rightarrow> bool" where
  "validRole r = (r = lit ''user'' \<or> r = lit ''assistant'' \<or> r = lit ''system'')"

fun keepEntry :: "hist_entry option \<Rightarrow> bool" where
  "keepEntry None = False"
| "keepEntry (Some e) =
     (case he_content e of
        None \<Rightarrow> False
      | Some c \<Rightarrow>
          if c = CString [] then False
          else if validRole (he_role e) then trim (contentStr c) \<noteq> []
          else False)"

fun flattenEntry :: "hist_entry option \<Rightarrow> out_message list" where
  "flattenEntry None = []"
| "flattenEntry (Some e) =
     (case he_content e of
        None \<Rightarrow> []
      | Some c \<Rightarrow> [\<lparr>out_role = he_role e, out_content = trim (contentStr c)\<rparr>])"

definition processedHistory :: "hist_entry option list \<Rightarrow> out_message list" where
  "processedHistory history = concat (map flattenEntry (filter keepEntry history))"

text \<open>An outgoing message read again as a history entry of a request.\<close>

definition as_entry :: "out_message \<Rightarrow> hist_entry option" where
  "as_entry m = Some \<lparr>he_role = out_role m, he_content = Some (CString (out_content m))\<rparr>"

text \<open>
  createPortfolioHandler:
  \<^verbatim>\<open>history.filter(msg => msg.content && msg.content.trim().length > 0)
         .map(msg => ({ role: msg.role, content: msg.content.trim() }))\<close>
\<close>

definition routerHistory :: "ChatMessage list \<Rightarrow> out_message list" where
  "routerHistory history =
     map (\<lambda>msg. \<lparr>out_role = role msg, out_content = trim (content msg)\<rparr>)
       (filter (\<lambda>msg. content msg \<noteq> [] \<and> trim (content msg) \<noteq> []) history)"

definition as_ChatMessage :: "out_message \<Rightarrow> ChatMessage" where
  "as_ChatMessage m = \<lparr>role = out_role m, content = out_content m, timestamp = None\<rparr>"

section \<open>Requests, responses and collaborators\<close>

text \<open>
  \<open>ChatRequest\<close>: a field that is missing from the JSON body is \<open>None\<close>; a missing
  history is the empty list (the destructuring default). The history entries are
  \<open>ChatMessage\<close> for the Manual RAG and the proxied handler and \<open>hist_entry option\<close>
  for the read-only backend handler.
\<close>

record 'h ChatRequest =
  message :: "jsstring option"
  sessionId :: "jsstring option"
  history :: "'h list"

text \<open>
  A thrown value: an object with an optional \<open>message\<close> and an optional numeric
  \<open>status\<close>. \<open>new Error(m)\<close> carries the message only.
\<close>

record exn =
  err_message :: "jsstring option"
  err_status :: "nat option"

definition Error :: "jsstring \<Rightarrow> exn" where
  "Error m = \<lparr>err_message = Some m, err_status = None\<rparr>"

text \<open>
  A document of the search service, with the fields the handlers read: \<open>doc_content\<close> is
  \<open>Some\<close> when \<open>typeof doc.content === 'string'\<close>, \<open>doc_chunks\<close> is \<open>Some\<close> when
  \<open>doc.chunks\<close> is an array, and a chunk is \<open>Some\<close> when its content is a string.
\<close>

record metadata =
  md_summary :: "jsstring option"
  md_description :: "jsstring option"

record document =
  doc_content :: "jsstring option"
  doc_summary :: "jsstring option"
  doc_metadata :: "metadata option"
  doc_chunks :: "jsstring option list option"

record search_params =
  q :: jsstring
  containerTags :: "jsstring option list"
  limit :: nat
  includeFullDocs :: bool
  includeSummary :: bool
  rerank :: bool

text \<open>
  The search call throws, or returns a value whose \<open>results\<close> is an array of documents
  (\<open>Some\<close>) or anything else (\<open>None\<close>, the malformed shape).
\<close>

datatype search_outcome = SearchThrows exn | SearchReturns "document list option"

record ChatResponse =
  answer :: jsstring
  sources :: "document list option"
  rsp_sessionId :: jsstring
  rsp_error :: "jsstring option"

datatype body = ErrorJson jsstring | ChatJson ChatResponse | TextStream "jsstring list"

record response =
  status :: nat
  body :: body

text \<open>\<open>anthropic.messages.create\<close> of the Manual RAG handler.\<close>

record create_params =
  cp_model :: jsstring
  cp_max_tokens :: nat
  cp_temperature :: real
  cp_system :: jsstring
  cp_messages :: "out_message list"

datatype content_block = TextBlock jsstring | OtherBlock

datatype create_outcome = CreateThrows exn | CreateReturns "content_block list"

text \<open>
  \<open>streamText\<close> of the AI SDK, on a provider model built by \<open>getProviderModel\<close>. The call
  throws, or gives a stream of text chunks that may end in an error; \<open>await result.text\<close>
  is the concatenation of the chunks, or throws that error.
\<close>

datatype sdk = AnthropicSDK | OpenAISDK | GoogleSDK

record provider_model =
  pm_sdk :: sdk
  pm_apiKey :: "jsstring option"
  pm_baseURL :: "jsstring option"
  pm_headers :: "(jsstring \<times> jsstring option) list"
  pm_model :: jsstring

record stream_params =
  sp_model :: provider_model
  sp_system :: jsstring
  sp_messages :: "out_message list"
  sp_temperature :: real

datatype stream_outcome = StreamTextThrows exn | StreamResult "jsstring list" "exn option"

text \<open>The calls a handler makes to its collaborators, in order.\<close>

datatype event =
  SearchDocuments search_params
| MessagesCreate create_params
| StreamText stream_params

section \<open>Context extraction and prompts\<close>

definition nl :: jsstring where
  "nl = [0x000A]"

fun opt_list :: "'a option \<Rightarrow> 'a list" where
  "opt_list None = []"
| "opt_list (Some x) = [x]"

text \<open>The callback of \<open>documents.flatMap\<close>, the same in both retrieving handlers.\<close>

definition segments :: "document \<Rightarrow> jsstring list" where
  "segments doc =
     filter (\<lambda>s. s \<noteq> [])
       (opt_list (doc_content doc)
        @ (if truthy (doc_summary doc) then opt_list (doc_summary doc) else [])
        @ (case doc_metadata doc of
             None \<Rightarrow> []
           | Some md \<Rightarrow>
               if truthy (md_summary md) \<or> truthy (md_description md)
               then (case md_summary md of Some s \<Rightarrow> [s] | None \<Rightarrow> opt_list (md_description md))
               else [])
        @ (case doc_chunks doc of
             None \<Rightarrow> []
           | Some chunks \<Rightarrow> concat (map opt_list chunks)))"

definition docContext :: "document list \<Rightarrow> jsstring" where
  "docContext documents =
     join (nl @ nl @ lit ''---'' @ nl @ nl)
       (filter (\<lambda>s. s \<noteq> []) (concat (map segments documents)))"

definition defaultSystemPrompt :: jsstring where
  "defaultSystemPrompt =
     lit ''You are a helpful AI assistant for a portfolio website.'' @ nl
     @ lit ''Use the provided context from the person's resume and documents to answer questions accurately.'' @ nl
     @ lit ''Be concise, professional, and friendly. If you don't have enough information, say so honestly.''"

definition fallbackPrompt :: jsstring where
  "fallbackPrompt = lit ''No specific context found. Answer based on general knowledge if appropriate.''"

definition contextPrompt :: "jsstring \<Rightarrow> jsstring" where
  "contextPrompt context =
     (if context \<noteq> []
      then lit ''Here is relevant information from the portfolio:'' @ nl @ nl @ context @ nl @ nl
           @ lit ''Now answer the user's question.''
      else fallbackPrompt)"

text \<open>The current user turn of the retrieving handlers.\<close>

definition userTurn :: "jsstring \<Rightarrow> jsstring \<Rightarrow> out_message" where
  "userTurn context msg =
     \<lparr>out_role = lit ''user'',
      out_content = contextPrompt context @ nl @ nl @ lit ''Question: '' @ msg\<rparr>"

definition searchParams :: "jsstring \<Rightarrow> jsstring option \<Rightarrow> search_params" where
  "searchParams msg tag =
     \<lparr>q = msg, containerTags = [tag], limit = 5, includeFullDocs = True,
      includeSummary = True, rerank = True\<rparr>"

section \<open>The Manual RAG handler\<close>

record SupermemoryConfig =
  memory_apiKey :: jsstring
  memory_container :: jsstring
  memory_baseUrl :: "jsstring option"

record LLMConfig =
  llm_provider :: jsstring
  llm_apiKey :: jsstring
  llm_model :: "jsstring option"
  llm_systemPrompt :: "jsstring option"
  llm_temperature :: "real option"
  llm_maxTokens :: "nat option"
  llm_baseURL :: "jsstring option"

record PortfolioConfig =
  memory :: SupermemoryConfig
  llm :: LLMConfig

text \<open>
  What \<open>createManualRAGHandler\<close> fixes when it is called: the model, the temperature
  (\<open>?? 0.7\<close>) and the token budget (\<open>|| 1024\<close>, so that 0 is replaced too).
\<close>

record manual_handler =
  mh_config :: PortfolioConfig
  mh_model :: jsstring
  mh_temperature :: real
  mh_maxTokens :: nat

definition createManualRAGHandler :: "PortfolioConfig \<Rightarrow> manual_handler" where
  "createManualRAGHandler config =
     \<lparr>mh_config = config,
      mh_model = or_default (llm_model (llm config)) (lit ''claude-sonnet-4-20250514''),
      mh_temperature = (case llm_temperature (llm config) of None \<Rightarrow> 7 / 10 | Some t \<Rightarrow> t),
      mh_maxTokens = (case llm_maxTokens (llm config) of
                        None \<Rightarrow> 1024
                      | Some n \<Rightarrow> if n = 0 then 1024 else n)\<rparr>"

text \<open>
  The module-level \<open>sessionStore\<close>, a \<open>Map\<close> from session identifiers to histories.
  What one request sees of the outside: the search result, the provider's reply and the
  two readings of \<open>Date.now()\<close>.
\<close>

type_synonym session_store = "jsstring \<rightharpoonup> ChatMessage list"

record manual_env =
  me_search :: search_outcome
  me_create :: create_outcome
  me_now_user :: nat
  me_now_assistant :: nat

text \<open>The catch block: \<open>{ error: error.message || 'Internal server error' }\<close>, status 500.\<close>

definition manual_catch :: "exn \<Rightarrow> response" where
  "manual_catch e =
     \<lparr>status = 500, body = ErrorJson (or_default (err_message e) (lit ''Internal server error''))\<rparr>"

definition missingFields :: response where
  "missingFields = \<lparr>status = 400, body = ErrorJson (lit ''Missing message or sessionId'')\<rparr>"

text \<open>\<open>response.content[0]?.type === 'text' ? response.content[0].text : 'No response generated'\<close>\<close>

fun firstText :: "content_block list \<Rightarrow> jsstring" where
  "firstText (TextBlock t # bs) = t"
| "firstText bs = lit ''No response generated''"

text \<open>\<open>xs.slice(-20)\<close>, taken when the length exceeds 20.\<close>

definition keepLast20 :: "'a list \<Rightarrow> 'a list" where
  "keepLast20 xs = (if length xs > 20 then drop (length xs - 20) xs else xs)"

definition newTurns :: "manual_env \<Rightarrow> jsstring \<Rightarrow> jsstring \<Rightarrow> ChatMessage list" where
  "newTurns env msg ans =
     [\<lparr>role = lit ''user'', content = msg, timestamp = Some (me_now_user env)\<rparr>,
      \<lparr>role = lit ''assistant'', content = ans, timestamp = Some (me_now_assistant env)\<rparr>]"

text \<open>
  The body of POST once message and sessionId are present. The result is the response,
  the session store afterwards and the calls made.
\<close>

definition manual_serve ::
  "manual_handler \<Rightarrow> manual_env \<Rightarrow> session_store \<Rightarrow> jsstring \<Rightarrow> jsstring \<Rightarrow> ChatMessage list
     \<Rightarrow> response \<times> session_store \<times> event list" where
  "manual_serve h env store msg sid hist =
     (let sessionHistory =
            (if length hist > 0 then hist
             else (case store sid of None \<Rightarrow> [] | Some stored \<Rightarrow> stored));
          search = searchParams msg (Some (memory_container (memory (mh_config h))))
      in case me_search env of
           SearchThrows e \<Rightarrow> (manual_catch e, store, [SearchDocuments search])
         | SearchReturns results \<Rightarrow>
             (let documents = (case results of None \<Rightarrow> [] | Some ds \<Rightarrow> ds);
                  context = docContext documents;
                  systemPrompt = or_default (llm_systemPrompt (llm (mh_config h))) defaultSystemPrompt;
                  messages =
                    map (\<lambda>m. \<lparr>out_role = role m, out_content = content m\<rparr>) sessionHistory
                    @ [userTurn context msg];
                  call = \<lparr>cp_model = mh_model h, cp_max_tokens = mh_maxTokens h,
                          cp_temperature = mh_temperature h, cp_system = systemPrompt,
                          cp_messages = messages\<rparr>
              in case me_create env of
                   CreateThrows e \<Rightarrow>
                     (manual_catch e, store, [SearchDocuments search, MessagesCreate call])
                 | CreateReturns blocks \<Rightarrow>
                     (let ans = firstText blocks;
                          updated = keepLast20 (sessionHistory @ newTurns env msg ans)
                      in (\<lparr>status = 200,
                           body = ChatJson \<lparr>answer = ans, sources = Some (take 3 documents),
                                            rsp_sessionId = sid, rsp_error = None\<rparr>\<rparr>,
                          store(sid \<mapsto> updated),
                          [SearchDocuments search, MessagesCreate call]))))"

text \<open>
  POST of the Manual RAG handler. \<open>await req.json()\<close> may throw (\<open>Inl\<close>); the only
  validation is \<open>!message || !sessionId\<close>.
\<close>

definition manual_POST ::
  "manual_handler \<Rightarrow> manual_env \<Rightarrow> session_store \<Rightarrow> exn + ChatMessage ChatRequest
     \<Rightarrow> response \<times> session_store \<times> event list" where
  "manual_POST h env store req =
     (case req of
        Inl e \<Rightarrow> (manual_catch e, store, [])
      | Inr request \<Rightarrow>
          (case message request of
             None \<Rightarrow> (missingFields, store, [])
           | Some msg \<Rightarrow>
               (case sessionId request of
                  None \<Rightarrow> (missingFields, store, [])
                | Some sid \<Rightarrow>
                    if msg = [] then (missingFields, store, [])
                    else if sid = [] then (missingFields, store, [])
                    else manual_serve h env store msg sid (history request))))"

text \<open>
  A sequence of requests. The store is one per module, shared by every handler that
  \<open>createManualRAGHandler\<close> returns, so each request comes with the handler that serves
  it and with its own outside world.
\<close>

type_synonym manual_step = "manual_handler \<times> manual_env \<times> (exn + ChatMessage ChatRequest)"

fun manual_run :: "session_store \<Rightarrow> manual_step list \<Rightarrow> session_store" where
  "manual_run store [] = store"
| "manual_run store ((h, env, req) # rest) =
     manual_run (fst (snd (manual_POST h env store req))) rest"

text \<open>
  The reference the store is compared with, in the words of the specification: the ordered
  sequence of the turns of a session. Every answered request (a chat response) appends its
  user turn and the assistant turn that carries the answer of the response to the sequence
  of its session, and no turn is ever removed.
\<close>

definition lastN :: "nat \<Rightarrow> 'a list \<Rightarrow> 'a list" where
  "lastN n xs = drop (length xs - n) xs"

definition append_turns ::
  "manual_env \<Rightarrow> exn + ChatMessage ChatRequest \<Rightarrow> response \<Rightarrow> session_store \<Rightarrow> session_store" where
  "append_turns env req resp full =
     (case req of
        Inl e \<Rightarrow> full
      | Inr request \<Rightarrow>
          (case body resp of
             ChatJson r \<Rightarrow>
               (case message request of
                  None \<Rightarrow> full
                | Some msg \<Rightarrow>
                    (case sessionId request of
                       None \<Rightarrow> full
                     | Some sid \<Rightarrow>
                         full(sid \<mapsto>
                           (case full sid of None \<Rightarrow> [] | Some turns \<Rightarrow> turns)
                           @ newTurns env msg (answer r))))
           | ErrorJson m \<Rightarrow> full
           | TextStream cs \<Rightarrow> full))"

fun turns_appended :: "session_store \<Rightarrow> session_store \<Rightarrow> manual_step list \<Rightarrow> session_store" where
  "turns_appended store full [] = full"
| "turns_appended store full ((h, env, req) # rest) =
     turns_appended (fst (snd (manual_POST h env store req)))
       (append_turns env req (fst (manual_POST h env store req)) full) rest"

text \<open>A request of a session that brings a history of its own (client-managed history).\<close>

fun supplies_history :: "jsstring \<Rightarrow> manual_step \<Rightarrow> bool" where
  "supplies_history sid (h, env, Inl e) = False"
| "supplies_history sid (h, env, Inr request) =
     (sessionId request = Some sid \<and> length (history request) > 0)"

section \<open>The proxied handler (Memory Router)\<close>

text \<open>
  \<open>MemoryRouterConfig\<close>. The provider is whatever string the caller wrote; a required
  field may be missing or empty, which the constructors test with \<open>!\<close>.
\<close>

record MemoryRouterConfig =
  llmProvider :: jsstring
  llmApiKey :: "jsstring option"
  llmModel :: "jsstring option"
  supermemoryApiKey :: "jsstring option"
  supermemoryContainer :: "jsstring option"
  systemPrompt :: "jsstring option"
  temperature :: "real option"
  maxTokens :: "nat option"
  streaming :: "bool option"
  openRouterReferer :: "jsstring option"
  openRouterTitle :: "jsstring option"

text \<open>
  \<open>MEMORY_ROUTER_URLS[config.llmProvider]\<close> is a property read on an object literal: one
  of the five own properties, or a property that every object inherits from
  \<open>Object.prototype\<close> (a function or an object, so truthy), or \<open>undefined\<close>.
\<close>

datatype property = OwnUrl jsstring | Inherited | Undefined

definition objectPrototypeKeys :: "jsstring list" where
  "objectPrototypeKeys =
     [lit ''constructor'', lit ''__defineGetter__'', lit ''__defineSetter__'',
      lit ''hasOwnProperty'', lit ''__lookupGetter__'', lit ''__lookupSetter__'',
      lit ''isPrototypeOf'', lit ''propertyIsEnumerable'', lit ''toString'', lit ''valueOf'',
      lit ''__proto__'', lit ''toLocaleString'']"

definition MEMORY_ROUTER_URLS :: "jsstring \<Rightarrow> property" where
  "MEMORY_ROUTER_URLS key =
     (if key = lit ''anthropic'' then OwnUrl (lit ''https://api.supermemory.ai/v3/https://api.anthropic.com/v1'')
      else if key = lit ''openai'' then OwnUrl (lit ''https://api.supermemory.ai/v3/https://api.openai.com/v1'')
      else if key = lit ''groq'' then OwnUrl (lit ''https://api.supermemory.ai/v3/https://api.groq.com/openai/v1'')
      else if key = lit ''openrouter'' then OwnUrl (lit ''https://api.supermemory.ai/v3/https://openrouter.ai/api/v1'')
      else if key = lit ''google''
        then OwnUrl (lit ''https://api.supermemory.ai/v3/https://generativelanguage.googleapis.com/v1beta'')
      else if List.member objectPrototypeKeys key then Inherited
      else Undefined)"

definition getDefaultModel :: "jsstring \<Rightarrow> jsstring" where
  "getDefaultModel provider =
     (if provider = lit ''anthropic'' then lit ''claude-sonnet-4-20250514''
      else if provider = lit ''openai'' then lit ''gpt-4o''
      else if provider = lit ''groq'' then lit ''llama-3.3-70b-versatile''
      else if provider = lit ''openrouter'' then lit ''anthropic/claude-3.5-sonnet''
      else if provider = lit ''google'' then lit ''gemini-1.5-flash''
      else lit ''claude-sonnet-4-20250514'')"

text \<open>What the constructor fixes for the closures POST and GET.\<close>

record router_handler =
  rh_config :: MemoryRouterConfig
  rh_baseURL :: property
  rh_model :: jsstring
  rh_temperature :: real
  rh_maxTokens :: nat
  rh_streaming :: bool

definition createPortfolioHandler :: "MemoryRouterConfig \<Rightarrow> exn + router_handler" where
  "createPortfolioHandler config =
     (if truthy (llmApiKey config) then
        if truthy (supermemoryApiKey config) then
          if truthy (supermemoryContainer config) then
            (case MEMORY_ROUTER_URLS (llmProvider config) of
               Undefined \<Rightarrow>
                 Inl (Error (lit ''Unsupported LLM provider: '' @ llmProvider config
                        @ lit ''. Supported: anthropic, openai, groq, openrouter, google''))
             | baseURL \<Rightarrow>
                 Inr \<lparr>rh_config = config,
                      rh_baseURL = baseURL,
                      rh_model = or_default (llmModel config) (getDefaultModel (llmProvider config)),
                      rh_temperature = (case temperature config of None \<Rightarrow> 7 / 10 | Some t \<Rightarrow> t),
                      rh_maxTokens = (case maxTokens config of
                                        None \<Rightarrow> 1024
                                      | Some n \<Rightarrow> if n = 0 then 1024 else n),
                      rh_streaming = (case streaming config of None \<Rightarrow> True | Some b \<Rightarrow> b)\<rparr>)
          else Inl (Error (lit ''Supermemory container is required''))
        else Inl (Error (lit ''Supermemory API key is required''))
      else Inl (Error (lit ''LLM API key is required'')))"

text \<open>
  \<open>getProviderModel\<close> of createPortfolioHandler. The second header is written in the
  source as \<^verbatim>\<open>'x-sm-user-id': 'config.supermemoryContainer'\<close>, a string literal.
\<close>

definition router_headers :: "MemoryRouterConfig \<Rightarrow> (jsstring \<times> jsstring option) list" where
  "router_headers config =
     [(lit ''x-supermemory-api-key'', supermemoryApiKey config),
      (lit ''x-sm-user-id'', Some (lit ''config.supermemoryContainer''))]"

definition url_of :: "property \<Rightarrow> jsstring option" where
  "url_of p = (case p of OwnUrl u \<Rightarrow> Some u | Inherited \<Rightarrow> None | Undefined \<Rightarrow> None)"

definition router_getProviderModel :: "router_handler \<Rightarrow> exn + provider_model" where
  "router_getProviderModel h =
     (let config = rh_config h;
          made = (\<lambda>kit. \<lparr>pm_sdk = kit, pm_apiKey = llmApiKey config,
                          pm_baseURL = url_of (rh_baseURL h),
                          pm_headers = router_headers config, pm_model = rh_model h\<rparr>)
      in if llmProvider config = lit ''anthropic'' then Inr (made AnthropicSDK)
         else if llmProvider config = lit ''openai'' then Inr (made OpenAISDK)
         else if llmProvider config = lit ''groq'' then Inr (made OpenAISDK)
         else if llmProvider config = lit ''openrouter'' then Inr (made OpenAISDK)
         else if llmProvider config = lit ''google'' then Inr (made GoogleSDK)
         else Inl (Error (lit ''Unsupported provider: '' @ llmProvider config)))"

text \<open>The header a provider request carries under a name (the last entry wins).\<close>

definition header :: "provider_model \<Rightarrow> jsstring \<Rightarrow> jsstring option" where
  "header pm name = (case map_of (rev (pm_headers pm)) name of None \<Rightarrow> None | Some v \<Rightarrow> v)"

record stream_env =
  se_search :: search_outcome
  se_stream :: stream_outcome

text \<open>\<open>error.status || 500\<close>: a missing status and the status 0 give 500.\<close>

definition status_or_500 :: "exn \<Rightarrow> nat" where
  "status_or_500 e = (case err_status e of None \<Rightarrow> 500 | Some n \<Rightarrow> if n = 0 then 500 else n)"

text \<open>
  \<open>Response.json(data, { status })\<close> does not take every status. The status of a
  \<open>ResponseInit\<close> is an \<open>unsigned short\<close>, so the number is first reduced modulo
  \<open>2^16\<close>; a status outside 200 to 599 throws a \<open>RangeError\<close>, and a null body status
  (204, 205, 304; 101 and 103 are out of range already) throws a \<open>TypeError\<close>, since the
  response has a body. A catch block that throws makes POST itself reject.
\<close>

datatype rejection = RangeError | TypeError

definition Response_json :: "body \<Rightarrow> nat \<Rightarrow> rejection + response" where
  "Response_json data init_status =
     (let code = init_status mod 65536
      in if code < 200 then Inl RangeError
         else if 599 < code then Inl RangeError
         else if code = 204 then Inl TypeError
         else if code = 205 then Inl TypeError
         else if code = 304 then Inl TypeError
         else Inr \<lparr>status = code, body = data\<rparr>)"

text \<open>
  The catch block of the proxied handler. \<open>error.message?.includes('container')\<close> is
  false for a missing message.
\<close>

definition router_catch :: "exn \<Rightarrow> rejection + response" where
  "router_catch e =
     Response_json
       (ErrorJson
          (if err_status e = Some 401
             then lit ''Invalid API key. Please check your LLM or Supermemory API key.''
           else if err_status e = Some 404
             then lit ''Model not found. Please check your model name.''
           else if (case err_message e of None \<Rightarrow> False | Some m \<Rightarrow> includes_str m (lit ''container''))
             then lit ''Supermemory container not found. Please check your container name.''
           else or_default (err_message e) (lit ''Internal server error'')))
       (status_or_500 e)"

definition emptyMessage :: response where
  "emptyMessage = \<lparr>status = 400, body = ErrorJson (lit ''Message cannot be empty'')\<rparr>"

definition emptyAnswer :: jsstring where
  "emptyAnswer =
     lit ''I apologize, but I'm having trouble generating a response. This might be because:''
     @ nl @ nl @ lit ''1. The memory container is empty (no documents uploaded)''
     @ nl @ lit ''2. There's an issue with the Memory Router connection''
     @ nl @ lit ''3. The API configuration needs to be checked''
     @ nl @ nl @ lit ''Please check the server logs for more details.''"

text \<open>\<open>Response.json(...)\<close> without a status is a 200.\<close>

definition chatJson :: "jsstring \<Rightarrow> jsstring \<Rightarrow> jsstring option \<Rightarrow> response" where
  "chatJson ans sid err =
     \<lparr>status = 200,
      body = ChatJson \<lparr>answer = ans, sources = None, rsp_sessionId = sid, rsp_error = err\<rparr>\<rparr>"

text \<open>
  The body of POST of the proxied handler once the request is validated: no retrieval; the
  filtered history and the trimmed message go to \<open>streamText\<close>. The result is the
  response POST resolves to (\<open>Inr\<close>), or what it rejects with when the catch block
  throws (\<open>Inl\<close>), and the calls made.
\<close>

definition router_serve ::
  "router_handler \<Rightarrow> stream_env \<Rightarrow> jsstring \<Rightarrow> jsstring \<Rightarrow> ChatMessage list
     \<Rightarrow> (rejection + response) \<times> event list" where
  "router_serve h env msg sid hist =
     (let messages = routerHistory hist @ [\<lparr>out_role = lit ''user'', out_content = trim msg\<rparr>];
          system = or_default (systemPrompt (rh_config h)) defaultSystemPrompt
      in case router_getProviderModel h of
           Inl e \<Rightarrow> (router_catch e, [])
         | Inr providerModel \<Rightarrow>
             (let call = \<lparr>sp_model = providerModel, sp_system = system,
                          sp_messages = messages, sp_temperature = rh_temperature h\<rparr>
              in case se_stream env of
                   StreamTextThrows e \<Rightarrow> (router_catch e, [StreamText call])
                 | StreamResult chunks failure \<Rightarrow>
                     if rh_streaming h then (Inr \<lparr>status = 200, body = TextStream chunks\<rparr>, [StreamText call])
                     else (case failure of
                             Some e \<Rightarrow> (router_catch e, [StreamText call])
                           | None \<Rightarrow>
                               (let fullText = concat chunks
                                in if fullText = [] then
                                     (Inr (chatJson emptyAnswer sid (Some (lit ''Empty response from LLM''))),
                                      [StreamText call])
                                   else if trim fullText = [] then
                                     (Inr (chatJson emptyAnswer sid (Some (lit ''Empty response from LLM''))),
                                      [StreamText call])
                                   else (Inr (chatJson fullText sid None), [StreamText call])))))"

definition router_POST ::
  "router_handler \<Rightarrow> stream_env \<Rightarrow> exn + ChatMessage ChatRequest \<Rightarrow> (rejection + response) \<times> event list" where
  "router_POST h env req =
     (case req of
        Inl e \<Rightarrow> (router_catch e, [])
      | Inr request \<Rightarrow>
          (case message request of
             None \<Rightarrow> (Inr missingFields, [])
           | Some msg \<Rightarrow>
               (case sessionId request of
                  None \<Rightarrow> (Inr missingFields, [])
                | Some sid \<Rightarrow>
                    if msg = [] then (Inr missingFields, [])
                    else if sid = [] then (Inr missingFields, [])
                    else if trim msg = [] then (Inr emptyMessage, [])
                    else router_serve h env msg sid (history request))))"

section \<open>The read-only backend handler\<close>

record backend_handler =
  bh_config :: MemoryRouterConfig
  bh_model :: jsstring
  bh_temperature :: real
  bh_streaming :: bool

text \<open>
  The constructor checks the three required strings and nothing else; the provider is
  first looked at by \<open>getProviderModel\<close>, which POST calls.
\<close>

definition createBackendHandler :: "MemoryRouterConfig \<Rightarrow> exn + backend_handler" where
  "createBackendHandler config =
     (if truthy (llmApiKey config) then
        if truthy (supermemoryApiKey config) then
          if truthy (supermemoryContainer config) then
            Inr \<lparr>bh_config = config,
                 bh_model = or_default (llmModel config) (getDefaultModel (llmProvider config)),
                 bh_temperature = (case temperature config of None \<Rightarrow> 7 / 10 | Some t \<Rightarrow> t),
                 bh_streaming = (case streaming config of None \<Rightarrow> True | Some b \<Rightarrow> b)\<rparr>
          else Inl (Error (lit ''Supermemory container is required''))
        else Inl (Error (lit ''Supermemory API key is required''))
      else Inl (Error (lit ''LLM API key is required'')))"

definition getBaseURL :: "jsstring \<Rightarrow> jsstring option" where
  "getBaseURL provider =
     (if provider = lit ''groq'' then Some (lit ''https://api.groq.com/openai/v1'')
      else if provider = lit ''openrouter'' then Some (lit ''https://openrouter.ai/api/v1'')
      else None)"

definition backend_getProviderModel :: "backend_handler \<Rightarrow> exn + provider_model" where
  "backend_getProviderModel h =
     (let config = bh_config h;
          plain = (\<lambda>kit url. \<lparr>pm_sdk = kit, pm_apiKey = llmApiKey config, pm_baseURL = url,
                               pm_headers = [], pm_model = bh_model h\<rparr>)
      in if llmProvider config = lit ''anthropic'' then Inr (plain AnthropicSDK None)
         else if llmProvider config = lit ''openai'' then Inr (plain OpenAISDK (getBaseURL (llmProvider config)))
         else if llmProvider config = lit ''groq'' then Inr (plain OpenAISDK (getBaseURL (llmProvider config)))
         else if llmProvider config = lit ''openrouter'' then
           Inr \<lparr>pm_sdk = OpenAISDK, pm_apiKey = llmApiKey config,
                pm_baseURL = Some (lit ''https://openrouter.ai/api/v1''),
                pm_headers =
                  [(lit ''HTTP-Referer'',
                    Some (or_default (openRouterReferer config) (lit ''https://portfolio-sdk.com''))),
                   (lit ''X-Title'', Some (or_default (openRouterTitle config) (lit ''Portfolio Chat'')))],
                pm_model = bh_model h\<rparr>
         else if llmProvider config = lit ''google'' then Inr (plain GoogleSDK None)
         else Inl (Error (lit ''Unsupported provider: '' @ llmProvider config)))"

text \<open>
  The openrouter branch of POST: the first message whose role is system, if its trimmed
  content is not empty, then the last message whose role is user, if its trimmed content is
  not empty. The contents are strings here, so of the three ways the source converts the
  user content only \<open>msgContent.trim()\<close> applies.
\<close>

definition simplifiedMessages :: "out_message list \<Rightarrow> out_message list" where
  "simplifiedMessages messages =
     (case List.find (\<lambda>m. out_role m = lit ''system'') messages of
        None \<Rightarrow> []
      | Some systemMsg \<Rightarrow>
          if trim (out_content systemMsg) = [] then []
          else [\<lparr>out_role = lit ''system'', out_content = trim (out_content systemMsg)\<rparr>])
     @ (case rev (filter (\<lambda>m. out_role m = lit ''user'') messages) of
          [] \<Rightarrow> []
        | currentUserMsg # earlier \<Rightarrow>
            if trim (out_content currentUserMsg) = [] then []
            else [\<lparr>out_role = lit ''user'', out_content = trim (out_content currentUserMsg)\<rparr>])"

definition backend_messages ::
  "backend_handler \<Rightarrow> jsstring \<Rightarrow> jsstring \<Rightarrow> hist_entry option list \<Rightarrow> out_message list" where
  "backend_messages h context msg hist =
     (let messages = processedHistory hist @ [userTurn context msg]
      in if llmProvider (bh_config h) = lit ''openrouter'' then simplifiedMessages messages
         else messages)"

definition backend_catch :: "exn \<Rightarrow> rejection + response" where
  "backend_catch e =
     Response_json
       (ErrorJson
          (if err_status e = Some 401
             then lit ''Invalid API key. Please check your LLM or Supermemory API key.''
           else or_default (err_message e) (lit ''Internal server error'')))
       (status_or_500 e)"

text \<open>
  The body of POST of the backend handler once the request is validated: search, context,
  messages, provider model, \<open>streamText\<close>. The buffered reply is returned as it is.
\<close>

definition backend_serve ::
  "backend_handler \<Rightarrow> stream_env \<Rightarrow> jsstring \<Rightarrow> jsstring \<Rightarrow> hist_entry option list
     \<Rightarrow> (rejection + response) \<times> event list" where
  "backend_serve h env msg sid hist =
     (let search = searchParams msg (supermemoryContainer (bh_config h))
      in case se_search env of
           SearchThrows e \<Rightarrow> (backend_catch e, [SearchDocuments search])
         | SearchReturns results \<Rightarrow>
             (let documents = (case results of None \<Rightarrow> [] | Some ds \<Rightarrow> ds);
                  context = docContext documents;
                  system = or_default (systemPrompt (bh_config h)) defaultSystemPrompt;
                  messages = backend_messages h context msg hist
              in case backend_getProviderModel h of
                   Inl e \<Rightarrow> (backend_catch e, [SearchDocuments search])
                 | Inr providerModel \<Rightarrow>
                     (let call = \<lparr>sp_model = providerModel, sp_system = system,
                                  sp_messages = messages, sp_temperature = bh_temperature h\<rparr>;
                          calls = [SearchDocuments search, StreamText call]
                      in case se_stream env of
                           StreamTextThrows e \<Rightarrow> (backend_catch e, calls)
                         | StreamResult chunks failure \<Rightarrow>
                             if bh_streaming h then (Inr \<lparr>status = 200, body = TextStream chunks\<rparr>, calls)
                             else (case failure of
                                     Some e \<Rightarrow> (backend_catch e, calls)
                                   | None \<Rightarrow> (Inr (chatJson (concat chunks) sid None), calls)))))"

definition backend_POST ::
  "backend_handler \<Rightarrow> stream_env \<Rightarrow> exn + hist_entry option ChatRequest \<Rightarrow> (rejection + response) \<times> event list" where
  "backend_POST h env req =
     (case req of
        Inl e \<Rightarrow> (backend_catch e, [])
      | Inr request \<Rightarrow>
          (case message request of
             None \<Rightarrow> (Inr missingFields, [])
           | Some msg \<Rightarrow>
               (case sessionId request of
                  None \<Rightarrow> (Inr missingFields, [])
                | Some sid \<Rightarrow>
                    if msg = [] then (Inr missingFields, [])
                    else if sid = [] then (Inr missingFields, [])
                    else if trim msg = [] then (Inr emptyMessage, [])
                    else backend_serve h env msg sid (history request))))"

section \<open>The chat widget: reading a streamed response\<close>

text \<open>
  \<open>sendMessage\<close> of AutoChat shows the transcript followed by the user entry and the
  thinking indicator (three U+25CF), then reads the body. Each read gives a decoded chunk;
  the list ends where the reader reports \<open>done\<close> or throws, which leave the loop alike.
  With every chunk comes the reading of \<open>Date.now()\<close> used in the update.
\<close>

definition thinking :: jsstring where
  "thinking = [0x25CF, 0x25CF, 0x25CF]"

definition showPending :: "ChatMessage list \<Rightarrow> jsstring \<Rightarrow> nat \<Rightarrow> nat \<Rightarrow> ChatMessage list" where
  "showPending messages msg sent shown =
     messages @ [\<lparr>role = lit ''user'', content = msg, timestamp = Some sent\<rparr>,
                 \<lparr>role = lit ''assistant'', content = thinking, timestamp = Some shown\<rparr>]"

text \<open>
  \<^verbatim>\<open>newMessages[newMessages.length - 1] = {...}\<close>; on an empty array the index is -1,
  which adds no element.
\<close>

definition replaceLast :: "ChatMessage list \<Rightarrow> jsstring \<Rightarrow> nat \<Rightarrow> ChatMessage list" where
  "replaceLast prev text now =
     (if prev = [] then []
      else prev[length prev - 1 := \<lparr>role = lit ''assistant'', content = text, timestamp = Some now\<rparr>])"

text \<open>
  The read loop, from the accumulated \<open>streamedContent\<close> and the displayed messages:
  the final accumulated text, the messages displayed at the end and every state the loop
  displayed, in order.
\<close>

fun readLoop ::
  "jsstring \<Rightarrow> ChatMessage list \<Rightarrow> (jsstring \<times> nat) list
     \<Rightarrow> jsstring \<times> ChatMessage list \<times> ChatMessage list list" where
  "readLoop streamedContent prev [] = (streamedContent, prev, [])"
| "readLoop streamedContent prev ((chunk, now) # rest) =
     (let shown = replaceLast prev (streamedContent @ chunk) now;
          after = readLoop (streamedContent @ chunk) shown rest
      in (fst after, fst (snd after), shown # snd (snd after)))"

text \<open>
  The streaming branch: the states displayed while reading, and the messages after the final
  update, which is made only \<open>if (streamedContent)\<close>.
\<close>

definition readStream ::
  "ChatMessage list \<Rightarrow> (jsstring \<times> nat) list \<Rightarrow> nat \<Rightarrow> ChatMessage list list \<times> ChatMessage list" where
  "readStream pending reads now =
     (let after = readLoop [] pending reads;
          streamedContent = fst after
      in (snd (snd after),
          if streamedContent = [] then fst (snd after)
          else replaceLast (fst (snd after)) streamedContent now))"

text \<open>What the widget renders for the last message of the transcript.\<close>

definition rendered :: "ChatMessage list \<Rightarrow> jsstring option" where
  "rendered messages = (case rev messages of [] \<Rightarrow> None | m # earlier \<Rightarrow> Some (content m))"

text \<open>The accumulated texts: every chunk appended to what came before it.\<close>

fun prefixes :: "jsstring \<Rightarrow> jsstring list \<Rightarrow> jsstring list" where
  "prefixes acc [] = []"
| "prefixes acc (chunk # rest) = (acc @ chunk) # prefixes (acc @ chunk) rest"

section \<open>uploadToSupermemory\<close>

text \<open>
  \<open>UploadOptions\<close>; the file is an opaque \<open>File\<close> or \<open>Buffer\<close>. The collaborators are
  the client constructor, \<open>client.memories.uploadFile\<close>, \<open>fetch\<close> and \<open>res.json()\<close>;
  each of them may throw. Thrown values are objects, as the errors of the client and of
  \<open>fetch\<close> are.
\<close>

record 'f UploadOptions =
  upload_file :: "'f option"
  upload_text :: "jsstring option"
  upload_title :: jsstring
  upload_type :: "jsstring option"
  upload_container :: "jsstring option"

record upload_response =
  ur_id :: "jsstring option"
  ur_document_id :: "jsstring option"

record add_response =
  ar_memoryId :: "jsstring option"
  ar_id :: "jsstring option"

record fetch_response =
  ok :: bool
  res_status :: nat
  res_json :: "exn + add_response"

record upload_env =
  ue_client :: "exn option"
  ue_uploadFile :: "exn + upload_response"
  ue_fetch :: "exn + fetch_response"

record upload_result =
  success :: bool
  documentId :: "jsstring option"
  error :: "jsstring option"

text \<open>\<open>a || b\<close> on optional strings.\<close>

definition or_else :: "jsstring option \<Rightarrow> jsstring option \<Rightarrow> jsstring option" where
  "or_else a b = (if truthy a then a else b)"

text \<open>The decimal digits of a number, as a template literal prints it.\<close>

fun digits :: "nat \<Rightarrow> jsstring" where
  "digits n = (if n < 10 then [48 + of_nat n] else digits (n div 10) @ [48 + of_nat (n mod 10)])"

declare digits.simps [simp del]

text \<open>
  The body of the \<open>try\<close> block: \<open>Inl\<close> is a value thrown inside it. The container
  (\<open>options.container || 'portfolio'\<close>) goes into the two requests and does not reach
  the result.
\<close>

definition upload_try :: "upload_env \<Rightarrow> jsstring \<Rightarrow> 'f UploadOptions \<Rightarrow> exn + upload_result" where
  "upload_try env apiKey options =
     (case ue_client env of
        Some e \<Rightarrow> Inl e
      | None \<Rightarrow>
          (case upload_file options of
             Some f \<Rightarrow>
               (case ue_uploadFile env of
                  Inl e \<Rightarrow> Inl e
                | Inr response \<Rightarrow>
                    Inr \<lparr>success = True,
                         documentId = or_else (ur_id response) (ur_document_id response),
                         error = None\<rparr>)
           | None \<Rightarrow>
               if truthy (upload_text options) then
                 (case ue_fetch env of
                    Inl e \<Rightarrow> Inl e
                  | Inr res \<Rightarrow>
                      if ok res then
                        (case res_json res of
                           Inl e \<Rightarrow> Inl e
                         | Inr data \<Rightarrow>
                             Inr \<lparr>success = True,
                                  documentId = or_else (ar_memoryId data) (ar_id data),
                                  error = None\<rparr>)
                      else Inl (Error (lit ''API error: '' @ digits (res_status res))))
               else Inr \<lparr>success = False, documentId = None,
                         error = Some (lit ''Either file or text must be provided'')\<rparr>))"

text \<open>
  The function: the \<open>try\<close> block under its \<open>catch\<close>. \<open>Inr\<close> is the value the promise
  resolves to, \<open>Inl\<close> a rejection.
\<close>

definition uploadToSupermemory ::
  "upload_env \<Rightarrow> jsstring \<Rightarrow> 'f UploadOptions \<Rightarrow> exn + upload_result" where
  "uploadToSupermemory env apiKey options =
     (case upload_try env apiKey options of
        Inl e \<Rightarrow>
          Inr \<lparr>success = False, documentId = None,
               error = Some (or_default (err_message e) (lit ''Upload failed''))\<rparr>
      | Inr result \<Rightarrow> Inr result)"

text \<open>The message lists handed to the provider, read off the calls of a request.\<close>

fun outgoing :: "event list \<Rightarrow> out_message list list" where
  "outgoing [] = []"
| "outgoing (SearchDocuments p # calls) = outgoing calls"
| "outgoing (MessagesCreate c # calls) = cp_messages c # outgoing calls"
| "outgoing (StreamText c # calls) = sp_messages c # outgoing calls"

section \<open>Example inputs\<close>

text \<open>
  A complete configuration for a provider, and the handlers the constructors build from
  it; a Manual RAG handler with the defaults; eleven answered requests of one session.
\<close>

definition exampleConfig :: "jsstring \<Rightarrow> bool \<Rightarrow> MemoryRouterConfig" where
  "exampleConfig provider stream =
     \<lparr>llmProvider = provider, llmApiKey = Some (lit ''llm-key''), llmModel = None,
      supermemoryApiKey = Some (lit ''sm-key''), supermemoryContainer = Some (lit ''portfolio''),
      systemPrompt = None, temperature = None, maxTokens = None, streaming = Some stream,
      openRouterReferer = None, openRouterTitle = None\<rparr>"

definition exampleBackend :: "jsstring \<Rightarrow> bool \<Rightarrow> backend_handler" where
  "exampleBackend provider stream =
     \<lparr>bh_config = exampleConfig provider stream, bh_model = getDefaultModel provider,
      bh_temperature = 7 / 10, bh_streaming = stream\<rparr>"

definition exampleRouter :: "jsstring \<Rightarrow> property \<Rightarrow> bool \<Rightarrow> router_handler" where
  "exampleRouter provider url stream =
     \<lparr>rh_config = exampleConfig provider stream, rh_baseURL = url,
      rh_model = getDefaultModel provider, rh_temperature = 7 / 10, rh_maxTokens = 1024,
      rh_streaming = stream\<rparr>"

definition exampleManual :: manual_handler where
  "exampleManual = createManualRAGHandler
     \<lparr>memory = \<lparr>memory_apiKey = lit ''sm-key'', memory_container = lit ''portfolio'',
                 memory_baseUrl = None\<rparr>,
      llm = \<lparr>llm_provider = lit ''anthropic'', llm_apiKey = lit ''llm-key'', llm_model = None,
             llm_systemPrompt = None, llm_temperature = None, llm_maxTokens = None,
             llm_baseURL = None\<rparr>\<rparr>"

definition exampleEnv :: "nat \<Rightarrow> manual_env" where
  "exampleEnv n =
     \<lparr>me_search = SearchReturns (Some []),
      me_create = CreateReturns [TextBlock (lit ''a'' @ digits n)],
      me_now_user = n, me_now_assistant = n\<rparr>"

definition exampleRequest :: "nat \<Rightarrow> exn + ChatMessage ChatRequest" where
  "exampleRequest n =
     Inr \<lparr>message = Some (lit ''q'' @ digits n), sessionId = Some (lit ''s''), history = []\<rparr>"

definition exampleSteps :: "manual_step list" where
  "exampleSteps =
     map (\<lambda>n. (exampleManual, exampleEnv n, exampleRequest n)) [0, 1, 2, 3, 4, 5, 6, 7, 8, 9, 10]"

text \<open>
  A twelfth request of the same session that brings a history of its own: the one user
  turn a client that starts afresh sends along.
\<close>

definition exampleResumed :: manual_step where
  "exampleResumed =
     (exampleManual, exampleEnv 11,
      Inr \<lparr>message = Some (lit ''q'' @ digits 11), sessionId = Some (lit ''s''),
           history = [\<lparr>role = lit ''user'', content = lit ''q'' @ digits 11, timestamp = None\<rparr>]\<rparr>)"

text \<open>
  A history of five prior turns, as \<open>ChatMessage\<close>s and as entries of a backend
  request; a history that holds one system entry; a request for either kind of history; and
  what a handler sees when the search finds nothing and the provider says \<open>Hi\<close>.
\<close>

definition exampleTurns :: "(jsstring \<times> jsstring) list" where
  "exampleTurns =
     [(lit ''user'', lit ''Who are you?''), (lit ''assistant'', lit ''An assistant.''),
      (lit ''user'', lit ''Where do you work?''), (lit ''assistant'', lit ''On this site.''),
      (lit ''user'', lit ''Any projects?'')]"

definition exampleHistory :: "ChatMessage list" where
  "exampleHistory = map (\<lambda>(r, c). \<lparr>role = r, content = c, timestamp = None\<rparr>) exampleTurns"

definition exampleEntries :: "hist_entry option list" where
  "exampleEntries = map (\<lambda>(r, c). Some \<lparr>he_role = r, he_content = Some (CString c)\<rparr>) exampleTurns"

definition exampleOutgoing :: "out_message list" where
  "exampleOutgoing = map (\<lambda>(r, c). \<lparr>out_role = r, out_content = c\<rparr>) exampleTurns"

definition systemEntry :: "hist_entry option" where
  "systemEntry = Some \<lparr>he_role = lit ''system'', he_content = Some (CString (lit ''Be brief.''))\<rparr>"

definition exampleChat :: "jsstring \<Rightarrow> 'h list \<Rightarrow> exn + 'h ChatRequest" where
  "exampleChat msg hist = Inr \<lparr>message = Some msg, sessionId = Some (lit ''s1''), history = hist\<rparr>"

definition exampleStream :: "search_outcome \<Rightarrow> jsstring list \<Rightarrow> stream_env" where
  "exampleStream found chunks = \<lparr>se_search = found, se_stream = StreamResult chunks None\<rparr>"

definition exampleReply :: "search_outcome \<Rightarrow> manual_env" where
  "exampleReply found =
     \<lparr>me_search = found, me_create = CreateReturns [TextBlock (lit ''Hi'')],
      me_now_user = 1, me_now_assistant = 2\<rparr>"

section \<open>Properties of trim\<close>

lemma rev_dropWhile_rev_prefix: "\<exists>w. u = rev (dropWhile P (rev u)) @ w"
proof -
  have "rev u = takeWhile P (rev u) @ dropWhile P (rev u)"
    by simp
  then have "u = rev (dropWhile P (rev u)) @ rev (takeWhile P (rev u))"
    by (metis rev_append rev_rev_ident)
  then show ?thesis ..
qed

lemma trim_hd: "trim s = [] \<or> \<not> isWhiteSpace (hd (trim s))"
proof (cases "trim s = []")
  case True
  then show ?thesis by simp
next
  case False
  define u where "u = dropWhile isWhiteSpace s"
  obtain w where w: "u = trim s @ w"
    using rev_dropWhile_rev_prefix [of u isWhiteSpace] by (auto simp: trim_def u_def)
  from False w have "u \<noteq> []" and "hd (trim s) = hd u"
    by auto
  moreover from \<open>u \<noteq> []\<close> have "\<not> isWhiteSpace (hd u)"
    unfolding u_def by (rule hd_dropWhile)
  ultimately show ?thesis by simp
qed

lemma trim_idem: "trim (trim s) = trim s"
proof -
  have front: "dropWhile isWhiteSpace (trim s) = trim s"
    using trim_hd [of s] by (auto simp: dropWhile_eq_self_iff)
  have "rev (trim s) = dropWhile isWhiteSpace (rev (dropWhile isWhiteSpace s))"
    by (simp add: trim_def)
  then have rear: "dropWhile isWhiteSpace (rev (trim s)) = rev (trim s)"
    by simp
  have "trim (trim s) = rev (dropWhile isWhiteSpace (rev (dropWhile isWhiteSpace (trim s))))"
    by (simp add: trim_def)
  also have "\<dots> = rev (dropWhile isWhiteSpace (rev (trim s)))"
    by (simp only: front)
  also have "\<dots> = trim s"
    by (simp only: rear rev_rev_ident)
  finally show ?thesis .
qed

lemma trim_empty_iff: "trim s = [] \<longleftrightarrow> list_all isWhiteSpace s"
proof
  assume "trim s = []"
  then have all_ws: "\<forall>x \<in> set (dropWhile isWhiteSpace s). isWhiteSpace x"
    by (simp add: trim_def)
  have "dropWhile isWhiteSpace s = []"
  proof (rule ccontr)
    assume nonempty: "dropWhile isWhiteSpace s \<noteq> []"
    then have "\<not> isWhiteSpace (hd (dropWhile isWhiteSpace s))"
      by (rule hd_dropWhile)
    moreover from nonempty have "hd (dropWhile isWhiteSpace s) \<in> set (dropWhile isWhiteSpace s)"
      by simp
    ultimately show False
      using all_ws by blast
  qed
  then show "list_all isWhiteSpace s"
    by (simp add: list_all_iff)
next
  assume "list_all isWhiteSpace s"
  then have empty: "dropWhile isWhiteSpace s = []"
    by (simp add: list_all_iff)
  show "trim s = []"
    unfolding trim_def empty by simp
qed

section \<open>History filtering is idempotent\<close>

lemma kept_entry_output:
  "keepEntry x \<Longrightarrow> m \<in> set (flattenEntry x) \<Longrightarrow>
   validRole (out_role m) \<and> out_content m \<noteq> [] \<and> trim (out_content m) = out_content m"
  by (cases x) (auto simp: trim_idem split: option.splits if_splits)

lemma processedHistory_output:
  "m \<in> set (processedHistory h) \<Longrightarrow>
   validRole (out_role m) \<and> out_content m \<noteq> [] \<and> trim (out_content m) = out_content m"
  using kept_entry_output by (auto simp: processedHistory_def)

lemma processedHistory_fixed:
  "\<forall>m \<in> set ms. validRole (out_role m) \<and> out_content m \<noteq> [] \<and> trim (out_content m) = out_content m \<Longrightarrow>
   processedHistory (map as_entry ms) = ms"
proof (induction ms)
  case Nil
  then show ?case by (simp add: processedHistory_def)
next
  case (Cons m ms)
  then have "processedHistory (map as_entry ms) = ms"
    by simp
  moreover from Cons.prems have "keepEntry (as_entry m)"
    by (simp add: as_entry_def)
  moreover from Cons.prems have "flattenEntry (as_entry m) = [m]"
    by (simp add: as_entry_def)
  ultimately show ?case
    by (simp add: processedHistory_def)
qed

lemma routerHistory_fixed:
  "\<forall>m \<in> set ms. out_content m \<noteq> [] \<and> trim (out_content m) = out_content m \<Longrightarrow>
   routerHistory (map as_ChatMessage ms) = ms"
  by (induction ms) (simp_all add: routerHistory_def as_ChatMessage_def)

lemma routerHistory_output:
  "m \<in> set (routerHistory h) \<Longrightarrow> out_content m \<noteq> [] \<and> trim (out_content m) = out_content m"
  by (auto simp: routerHistory_def trim_idem)

text \<open>
  C8. Filtering a history and filtering the result again gives the same sequence, for every
  input history: in the read-only backend handler (which drops null entries, entries with
  empty or whitespace-only content and entries whose role is not user, assistant or system,
  and flattens array content to a trimmed string) and in the proxied handler (which drops
  entries with empty or whitespace-only content and trims).
\<close>

theorem history_filter_idempotent:
  "processedHistory (map as_entry (processedHistory h)) = processedHistory h \<and>
   routerHistory (map as_ChatMessage (routerHistory g)) = routerHistory g"
proof
  show "processedHistory (map as_entry (processedHistory h)) = processedHistory h"
    by (rule processedHistory_fixed) (simp add: processedHistory_output)
  show "routerHistory (map as_ChatMessage (routerHistory g)) = routerHistory g"
    by (rule routerHistory_fixed) (simp add: routerHistory_output)
qed

section \<open>The session store keeps the twenty most recent turns\<close>

lemma keepLast20_lastN: "keepLast20 xs = lastN 20 xs"
  by (simp add: keepLast20_def lastN_def)

lemma length_lastN: "length (lastN n xs) = min n (length xs)"
  by (auto simp: lastN_def)

lemma lastN_append_lastN: "lastN n (lastN n xs @ ys) = lastN n (xs @ ys)"
proof (cases "length xs \<le> n")
  case True
  then show ?thesis by (simp add: lastN_def)
next
  case False
  then have "length xs - n + n = length xs"
    by simp
  moreover from False have "length ys + (length xs - n) = length xs + length ys - n"
    by simp
  ultimately show ?thesis
    by (simp add: lastN_def)
qed

lemma manual_POST_bounded:
  assumes "\<And>sid turns. store sid = Some turns \<Longrightarrow> length turns \<le> 20"
      and "fst (snd (manual_POST h env store req)) sid = Some turns"
  shows "length turns \<le> 20"
  using assms
  unfolding manual_POST_def manual_serve_def Let_def
  by (auto simp: keepLast20_lastN length_lastN
      split: sum.splits option.splits search_outcome.splits create_outcome.splits if_splits)

lemma manual_run_bounded:
  "(\<And>sid turns. store sid = Some turns \<Longrightarrow> length turns \<le> 20) \<Longrightarrow>
   manual_run store steps sid = Some turns \<Longrightarrow> length turns \<le> 20"
proof (induction steps arbitrary: store)
  case Nil
  then show ?case by simp
next
  case (Cons step steps)
  obtain h env req where step: "step = (h, env, req)"
    by (cases step)
  have "manual_run (fst (snd (manual_POST h env store req))) steps sid = Some turns"
    using Cons.prems(2) by (simp add: step)
  moreover have "\<And>sid turns. fst (snd (manual_POST h env store req)) sid = Some turns \<Longrightarrow> length turns \<le> 20"
    using manual_POST_bounded Cons.prems(1) by blast
  ultimately show ?case
    using Cons.IH by blast
qed

lemma manual_POST_appended:
  assumes "store sid = map_option (lastN 20) (full sid)"
      and "\<not> supplies_history sid (h, env, req)"
  shows "fst (snd (manual_POST h env store req)) sid
           = map_option (lastN 20) (append_turns env req (fst (manual_POST h env store req)) full sid)"
  using assms
  unfolding manual_POST_def manual_serve_def append_turns_def Let_def
  by (cases req)
     (auto simp: keepLast20_lastN lastN_append_lastN manual_catch_def missingFields_def
      split: option.splits search_outcome.splits create_outcome.splits if_splits)

lemma manual_run_appended:
  "store sid = map_option (lastN 20) (full sid) \<Longrightarrow> \<not> list_ex (supplies_history sid) steps \<Longrightarrow>
   manual_run store steps sid = map_option (lastN 20) (turns_appended store full steps sid)"
proof (induction steps arbitrary: store full)
  case Nil
  then show ?case by simp
next
  case (Cons step steps)
  obtain h env req where step: "step = (h, env, req)"
    by (cases step)
  from Cons.prems(2) have quiet: "\<not> supplies_history sid (h, env, req)"
    and rest: "\<not> list_ex (supplies_history sid) steps"
    by (simp_all add: step)
  have "fst (snd (manual_POST h env store req)) sid
      = map_option (lastN 20) (append_turns env req (fst (manual_POST h env store req)) full sid)"
    using Cons.prems(1) quiet by (rule manual_POST_appended)
  then have "manual_run (fst (snd (manual_POST h env store req))) steps sid
      = map_option (lastN 20)
          (turns_appended (fst (snd (manual_POST h env store req)))
             (append_turns env req (fst (manual_POST h env store req)) full) steps sid)"
    using rest by (rule Cons.IH)
  then show ?case
    by (simp add: step)
qed

lemma manual_POST_client_history:
  assumes "length hist > 0" and "msg \<noteq> []" and "sid \<noteq> []"
      and "me_search env = SearchReturns results" and "me_create env = CreateReturns blocks"
  shows "fst (snd (manual_POST h env store
           (Inr \<lparr>message = Some msg, sessionId = Some sid, history = hist\<rparr>))) sid
         = Some (lastN 20 (hist @ newTurns env msg (firstText blocks)))"
  using assms by (simp add: manual_POST_def manual_serve_def Let_def keepLast20_lastN)

text \<open>
  C6, as the code has it. For every session of the Manual RAG handler's store, after any
  sequence of requests from the empty store the stored history has at most 20 entries. For
  a session none of whose requests brings a history of its own, the stored history is the
  last 20 of the turns appended to the session, in their order: once more than 20 turns were
  appended it has exactly 20 entries, the oldest ones gone. A request that brings a
  non-empty history and is answered replaces the stored history of its session by the last
  20 entries of that history followed by the two new turns.
\<close>

theorem session_store_capped_fifo:
  "(\<forall>sid turns. manual_run Map.empty steps sid = Some turns \<longrightarrow> length turns \<le> 20) \<and>
   (\<forall>sid. \<not> list_ex (supplies_history sid) steps \<longrightarrow>
      manual_run Map.empty steps sid
        = map_option (lastN 20) (turns_appended Map.empty Map.empty steps sid)) \<and>
   (\<forall>sid full. \<not> list_ex (supplies_history sid) steps \<and>
        turns_appended Map.empty Map.empty steps sid = Some full \<and> 20 < length full \<longrightarrow>
      (\<exists>turns. manual_run Map.empty steps sid = Some turns \<and> length turns = 20
               \<and> turns = drop (length full - 20) full)) \<and>
   (length hist > 0 \<and> msg \<noteq> [] \<and> who \<noteq> [] \<and> me_search env = SearchReturns results \<and>
      me_create env = CreateReturns blocks \<longrightarrow>
      fst (snd (manual_POST h env store
          (Inr \<lparr>message = Some msg, sessionId = Some who, history = hist\<rparr>))) who
        = Some (lastN 20 (hist @ newTurns env msg (firstText blocks))))"
proof (intro conjI allI impI)
  fix sid turns
  assume "manual_run Map.empty steps sid = Some turns"
  then show "length turns \<le> 20"
    by (rule manual_run_bounded [rotated]) simp
next
  fix sid
  assume "\<not> list_ex (supplies_history sid) steps"
  then show "manual_run Map.empty steps sid
        = map_option (lastN 20) (turns_appended Map.empty Map.empty steps sid)"
    by (intro manual_run_appended) simp_all
next
  fix sid full
  assume a: "\<not> list_ex (supplies_history sid) steps \<and>
        turns_appended Map.empty Map.empty steps sid = Some full \<and> 20 < length full"
  then have "manual_run Map.empty steps sid
        = map_option (lastN 20) (turns_appended Map.empty Map.empty steps sid)"
    by (intro manual_run_appended) simp_all
  with a show "\<exists>turns. manual_run Map.empty steps sid = Some turns \<and> length turns = 20
               \<and> turns = drop (length full - 20) full"
    by (simp add: length_lastN lastN_def)
next
  assume "length hist > 0 \<and> msg \<noteq> [] \<and> who \<noteq> [] \<and> me_search env = SearchReturns results \<and>
      me_create env = CreateReturns blocks"
  then show "fst (snd (manual_POST h env store
          (Inr \<lparr>message = Some msg, sessionId = Some who, history = hist\<rparr>))) who
        = Some (lastN 20 (hist @ newTurns env msg (firstText blocks)))"
    using manual_POST_client_history by blast
qed

lemma example_step_store:
  "fst (snd (manual_POST exampleManual (exampleEnv n) store (exampleRequest n)))
   = store(lit ''s'' \<mapsto> keepLast20 ((case store (lit ''s'') of None \<Rightarrow> [] | Some t \<Rightarrow> t)
        @ newTurns (exampleEnv n) (lit ''q'' @ digits n) (lit ''a'' @ digits n)))"
  by (simp add: manual_POST_def manual_serve_def exampleRequest_def exampleEnv_def Let_def lit_def)

lemma example_step_log:
  "append_turns (exampleEnv n) (exampleRequest n)
     (fst (manual_POST exampleManual (exampleEnv n) store (exampleRequest n))) full
   = full(lit ''s'' \<mapsto> (case full (lit ''s'') of None \<Rightarrow> [] | Some t \<Rightarrow> t)
        @ newTurns (exampleEnv n) (lit ''q'' @ digits n) (lit ''a'' @ digits n))"
  by (simp add: append_turns_def manual_POST_def manual_serve_def exampleRequest_def
      exampleEnv_def Let_def lit_def)

lemma exampleSteps_server_held: "\<not> list_ex (supplies_history (lit ''s'')) exampleSteps"
  by (simp add: exampleSteps_def exampleRequest_def)

lemma exampleSteps_appended:
  "map_option (map content) (turns_appended Map.empty Map.empty exampleSteps (lit ''s''))
     = Some (map lit [''q0'', ''a0'', ''q1'', ''a1'', ''q2'', ''a2'', ''q3'', ''a3'', ''q4'', ''a4'',
          ''q5'', ''a5'', ''q6'', ''a6'', ''q7'', ''a7'', ''q8'', ''a8'', ''q9'', ''a9'',
          ''q10'', ''a10''])"
  by (simp add: exampleSteps_def example_step_log newTurns_def lit_def digits.simps)

theorem session_store_capped_fifo_witness:
  "map_option (map content) (turns_appended Map.empty Map.empty exampleSteps (lit ''s''))
     = Some (map lit [''q0'', ''a0'', ''q1'', ''a1'', ''q2'', ''a2'', ''q3'', ''a3'', ''q4'', ''a4'',
          ''q5'', ''a5'', ''q6'', ''a6'', ''q7'', ''a7'', ''q8'', ''a8'', ''q9'', ''a9'',
          ''q10'', ''a10'']) \<and>
   map_option (map content) (manual_run Map.empty exampleSteps (lit ''s''))
     = Some (map lit [''q1'', ''a1'', ''q2'', ''a2'', ''q3'', ''a3'', ''q4'', ''a4'',
          ''q5'', ''a5'', ''q6'', ''a6'', ''q7'', ''a7'', ''q8'', ''a8'', ''q9'', ''a9'',
          ''q10'', ''a10''])"
proof -
  have "manual_run Map.empty exampleSteps (lit ''s'')
      = map_option (lastN 20) (turns_appended Map.empty Map.empty exampleSteps (lit ''s''))"
    using session_store_capped_fifo [of exampleSteps] exampleSteps_server_held by blast
  then have "map_option (map content) (manual_run Map.empty exampleSteps (lit ''s''))
      = map_option (lastN 20) (map_option (map content)
          (turns_appended Map.empty Map.empty exampleSteps (lit ''s'')))"
    by (simp add: option.map_comp comp_def lastN_def drop_map)
  then show ?thesis
    unfolding exampleSteps_appended by (simp add: lastN_def)
qed

lemma manual_run_append:
  "manual_run store (xs @ ys) = manual_run (manual_run store xs) ys"
  by (induction xs arbitrary: store) auto

lemma turns_appended_append:
  "turns_appended store full (xs @ ys)
     = turns_appended (manual_run store xs) (turns_appended store full xs) ys"
  by (induction xs arbitrary: store full) auto

lemma exampleSteps_stored:
  "map_option (map content) (manual_run Map.empty exampleSteps (lit ''s''))
     = Some (map lit [''q1'', ''a1'', ''q2'', ''a2'', ''q3'', ''a3'', ''q4'', ''a4'',
          ''q5'', ''a5'', ''q6'', ''a6'', ''q7'', ''a7'', ''q8'', ''a8'', ''q9'', ''a9'',
          ''q10'', ''a10''])"
  by (simp add: exampleSteps_def example_step_store keepLast20_def newTurns_def lit_def digits.simps)

lemma exampleResumed_store:
  "map_option (map content) (manual_run store [exampleResumed] (lit ''s''))
     = Some (map lit [''q11'', ''q11'', ''a11''])"
  by (simp add: exampleResumed_def manual_POST_def manual_serve_def exampleEnv_def Let_def
      keepLast20_def newTurns_def lit_def digits.simps)

lemma exampleResumed_log:
  "map_option length (turns_appended store full [exampleResumed] (lit ''s''))
     = Some (length (case full (lit ''s'') of None \<Rightarrow> [] | Some t \<Rightarrow> t) + 2)"
  by (simp add: exampleResumed_def append_turns_def manual_POST_def manual_serve_def
      exampleEnv_def Let_def newTurns_def lit_def digits.simps)

text \<open>
  The claim as stated fails when a request brings a history of its own. After the eleven
  requests the store holds 20 turns; the twelfth, answered, brings a history of one turn:
  24 turns were appended to the session and the store is left with 3.
\<close>

theorem client_history_counterexample:
  "map_option length (manual_run Map.empty exampleSteps (lit ''s'')) = Some 20 \<and>
   map_option length (turns_appended Map.empty Map.empty (exampleSteps @ [exampleResumed]) (lit ''s''))
     = Some 24 \<and>
   map_option (map content) (manual_run Map.empty (exampleSteps @ [exampleResumed]) (lit ''s''))
     = Some (map lit [''q11'', ''q11'', ''a11''])"
proof (intro conjI)
  show "map_option length (manual_run Map.empty exampleSteps (lit ''s'')) = Some 20"
    using exampleSteps_stored by (cases "manual_run Map.empty exampleSteps (lit ''s'')") auto
  have "\<exists>full. turns_appended Map.empty Map.empty exampleSteps (lit ''s'') = Some full \<and> length full = 22"
    using exampleSteps_appended by (cases "turns_appended Map.empty Map.empty exampleSteps (lit ''s'')") auto
  then show "map_option length
      (turns_appended Map.empty Map.empty (exampleSteps @ [exampleResumed]) (lit ''s'')) = Some 24"
    unfolding turns_appended_append exampleResumed_log by auto
  show "map_option (map content) (manual_run Map.empty (exampleSteps @ [exampleResumed]) (lit ''s''))
     = Some (map lit [''q11'', ''q11'', ''a11''])"
    unfolding manual_run_append by (rule exampleResumed_store)
qed

section \<open>Rendering a streamed response\<close>

lemma replaceLast_rendered: "prev \<noteq> [] \<Longrightarrow> rendered (replaceLast prev t now) = Some t"
  by (cases prev rule: rev_cases) (simp_all add: replaceLast_def rendered_def)

lemma replaceLast_nonempty: "prev \<noteq> [] \<Longrightarrow> replaceLast prev t now \<noteq> []"
  by (simp add: replaceLast_def)

lemma readLoop_text: "fst (readLoop acc prev reads) = acc @ concat (map fst reads)"
  by (induction acc prev reads rule: readLoop.induct) (simp_all add: Let_def)

lemma readLoop_states:
  "prev \<noteq> [] \<Longrightarrow>
   map rendered (snd (snd (readLoop acc prev reads))) = map Some (prefixes acc (map fst reads))"
  by (induction acc prev reads rule: readLoop.induct)
     (simp_all add: Let_def replaceLast_rendered replaceLast_nonempty)

lemma readLoop_final:
  "prev \<noteq> [] \<Longrightarrow>
   fst (snd (readLoop acc prev reads)) \<noteq> [] \<and>
   rendered (fst (snd (readLoop acc prev reads)))
     = (if reads = [] then rendered prev else Some (acc @ concat (map fst reads)))"
proof (induction acc prev reads rule: readLoop.induct)
  case (1 streamedContent prev)
  then show ?case by simp
next
  case (2 streamedContent prev chunk now rest)
  then show ?case
    by (cases rest) (simp_all add: Let_def replaceLast_rendered replaceLast_nonempty)
qed

lemma showPending_rendered: "rendered (showPending messages msg t t') = Some thinking"
  by (simp add: showPending_def rendered_def)

text \<open>
  C7, as the widget behaves. For every finite sequence of chunks, the states the widget
  renders for the assistant message while it reads are the accumulated texts, one per chunk,
  each the previous one with the chunk appended. When at least one chunk arrived, the message
  rendered at the end is the concatenation of all chunks in arrival order. When no chunk
  arrived, nothing is rendered while reading and the thinking indicator stays.
\<close>

theorem stream_rendering:
  "map rendered (fst (readStream (showPending messages msg t t') reads now))
     = map Some (prefixes [] (map fst reads)) \<and>
   (reads = [] \<longrightarrow>
      rendered (snd (readStream (showPending messages msg t t') reads now)) = Some thinking) \<and>
   (reads \<noteq> [] \<longrightarrow>
      rendered (snd (readStream (showPending messages msg t t') reads now))
        = Some (concat (map fst reads)))"
proof -
  have pending: "showPending messages msg t t' \<noteq> []"
    by (simp add: showPending_def)
  show ?thesis
    using readLoop_states [OF pending, of "[]" reads] readLoop_final [OF pending, of "[]" reads]
    by (auto simp: readStream_def Let_def readLoop_text replaceLast_rendered showPending_rendered)
qed

theorem stream_rendering_witness:
  "map rendered (fst (readStream (showPending [] (lit ''hi'') 0 0)
       [(lit ''Hel'', 1), (lit ''lo wo'', 2), (lit ''rld'', 3)] 4))
     = [Some (lit ''Hel''), Some (lit ''Hello wo''), Some (lit ''Hello world'')] \<and>
   rendered (snd (readStream (showPending [] (lit ''hi'') 0 0)
       [(lit ''Hel'', 1), (lit ''lo wo'', 2), (lit ''rld'', 3)] 4)) = Some (lit ''Hello world'')"
  using stream_rendering [of "[]" "lit ''hi''" 0 0
      "[(lit ''Hel'', 1), (lit ''lo wo'', 2), (lit ''rld'', 3)]" 4]
  by (simp add: lit_def)

text \<open>
  The claim as stated fails for the empty sequence: the stream of a reply to \<open>hi\<close> that
  ends before any chunk leaves the thinking indicator rendered, not the empty concatenation.
\<close>

theorem empty_stream_counterexample:
  "rendered (snd (readStream (showPending [] (lit ''hi'') 0 0) [] 1)) = Some thinking \<and>
   Some thinking \<noteq> Some (concat (map fst ([] :: (jsstring \<times> nat) list)))"
  by (simp add: readStream_def showPending_def rendered_def thinking_def)

section \<open>uploadToSupermemory always resolves\<close>

lemma upload_try_thrown:
  "ue_client env = Some e \<Longrightarrow> upload_try env apiKey options = Inl e"
  "ue_client env = None \<Longrightarrow> upload_file options = Some f \<Longrightarrow> ue_uploadFile env = Inl e \<Longrightarrow>
   upload_try env apiKey options = Inl e"
  "ue_client env = None \<Longrightarrow> upload_file options = None \<Longrightarrow> truthy (upload_text options) \<Longrightarrow>
   ue_fetch env = Inl e \<Longrightarrow> upload_try env apiKey options = Inl e"
  "ue_client env = None \<Longrightarrow> upload_file options = None \<Longrightarrow> truthy (upload_text options) \<Longrightarrow>
   ue_fetch env = Inr res \<Longrightarrow> ok res = False \<Longrightarrow>
   upload_try env apiKey options = Inl (Error (lit ''API error: '' @ digits (res_status res)))"
  "ue_client env = None \<Longrightarrow> upload_file options = None \<Longrightarrow> truthy (upload_text options) \<Longrightarrow>
   ue_fetch env = Inr res \<Longrightarrow> ok res \<Longrightarrow> res_json res = Inl e \<Longrightarrow>
   upload_try env apiKey options = Inl e"
  by (simp_all add: upload_try_def)

text \<open>
  C10, as the code has it. For every API key, options and behaviour of the collaborators,
  uploadToSupermemory resolves (it never rejects) to a record with a boolean success field.
  Whatever a collaborator throws inside (the client constructor, the file upload, fetch,
  a response that is not ok, the parsing of the reply) resolves to success = false with the
  message of the thrown value, or 'Upload failed' when it has none. When the client was
  constructed and neither a file nor a text is provided, the record is success = false with
  the error 'Either file or text must be provided'. Otherwise it is success = true with the
  identifier of the document.
\<close>

theorem uploadToSupermemory_outcomes:
  "(\<exists>r. uploadToSupermemory env apiKey options = Inr r) \<and>
   (ue_client env = Some e \<longrightarrow>
      uploadToSupermemory env apiKey options
        = Inr \<lparr>success = False, documentId = None,
               error = Some (or_default (err_message e) (lit ''Upload failed''))\<rparr>) \<and>
   (ue_client env = None \<and> upload_file options = Some f \<and> ue_uploadFile env = Inl e \<longrightarrow>
      uploadToSupermemory env apiKey options
        = Inr \<lparr>success = False, documentId = None,
               error = Some (or_default (err_message e) (lit ''Upload failed''))\<rparr>) \<and>
   (ue_client env = None \<and> upload_file options = Some f \<and> ue_uploadFile env = Inr response \<longrightarrow>
      uploadToSupermemory env apiKey options
        = Inr \<lparr>success = True,
               documentId = or_else (ur_id response) (ur_document_id response), error = None\<rparr>) \<and>
   (ue_client env = None \<and> upload_file options = None \<and> truthy (upload_text options) \<and>
    ue_fetch env = Inl e \<longrightarrow>
      uploadToSupermemory env apiKey options
        = Inr \<lparr>success = False, documentId = None,
               error = Some (or_default (err_message e) (lit ''Upload failed''))\<rparr>) \<and>
   (ue_client env = None \<and> upload_file options = None \<and> truthy (upload_text options) \<and>
    ue_fetch env = Inr res \<and> ok res = False \<longrightarrow>
      uploadToSupermemory env apiKey options
        = Inr \<lparr>success = False, documentId = None,
               error = Some (lit ''API error: '' @ digits (res_status res))\<rparr>) \<and>
   (ue_client env = None \<and> upload_file options = None \<and> truthy (upload_text options) \<and>
    ue_fetch env = Inr res \<and> ok res \<and> res_json res = Inl e \<longrightarrow>
      uploadToSupermemory env apiKey options
        = Inr \<lparr>success = False, documentId = None,
               error = Some (or_default (err_message e) (lit ''Upload failed''))\<rparr>) \<and>
   (ue_client env = None \<and> upload_file options = None \<and> truthy (upload_text options) \<and>
    ue_fetch env = Inr res \<and> ok res \<and> res_json res = Inr data \<longrightarrow>
      uploadToSupermemory env apiKey options
        = Inr \<lparr>success = True,
               documentId = or_else (ar_memoryId data) (ar_id data), error = None\<rparr>) \<and>
   (ue_client env = None \<and> upload_file options = None \<and> truthy (upload_text options) = False \<longrightarrow>
      uploadToSupermemory env apiKey options
        = Inr \<lparr>success = False, documentId = None,
               error = Some (lit ''Either file or text must be provided'')\<rparr>)"
proof -
  have "lit ''API error: '' \<noteq> []"
    by (simp add: lit_def)
  then have "or_default (Some (lit ''API error: '' @ digits (res_status res))) (lit ''Upload failed'')
      = lit ''API error: '' @ digits (res_status res)"
    by (simp add: or_default_def)
  then show ?thesis
    by (auto simp: uploadToSupermemory_def upload_try_thrown Error_def upload_try_def
        split: sum.splits option.splits)
qed

theorem uploadToSupermemory_outcomes_witness:
  "uploadToSupermemory
     \<lparr>ue_client = None, ue_uploadFile = Inl (Error (lit ''unused'')),
      ue_fetch = Inr \<lparr>ok = False, res_status = 503, res_json = Inl (Error (lit ''unused''))\<rparr>\<rparr>
     (lit ''sm-key'')
     \<lparr>upload_file = (None :: nat option), upload_text = Some (lit ''resume''),
      upload_title = lit ''cv'', upload_type = None, upload_container = None\<rparr>
   = Inr \<lparr>success = False, documentId = None, error = Some (lit ''API error: 503'')\<rparr> \<and>
   uploadToSupermemory
     \<lparr>ue_client = None, ue_uploadFile = Inl (Error (lit ''unused'')),
      ue_fetch = Inl (Error (lit ''unused''))\<rparr>
     (lit ''sm-key'')
     \<lparr>upload_file = (None :: nat option), upload_text = Some [],
      upload_title = lit ''cv'', upload_type = None, upload_container = None\<rparr>
   = Inr \<lparr>success = False, documentId = None,
          error = Some (lit ''Either file or text must be provided'')\<rparr>"
proof
  let ?down = "\<lparr>ue_client = None, ue_uploadFile = Inl (Error (lit ''unused'')),
      ue_fetch = Inr \<lparr>ok = False, res_status = 503, res_json = Inl (Error (lit ''unused''))\<rparr>\<rparr>"
  let ?text = "\<lparr>upload_file = (None :: nat option), upload_text = Some (lit ''resume''),
      upload_title = lit ''cv'', upload_type = None, upload_container = None\<rparr>"
  have "truthy (upload_text ?text)"
    by (simp add: truthy_def lit_def)
  then have "uploadToSupermemory ?down (lit ''sm-key'') ?text
      = Inr \<lparr>success = False, documentId = None,
             error = Some (lit ''API error: '' @ digits 503)\<rparr>"
    using uploadToSupermemory_outcomes [where env = ?down and options = ?text
        and apiKey = "lit ''sm-key''"
        and res = "\<lparr>ok = False, res_status = 503, res_json = Inl (Error (lit ''unused''))\<rparr>"]
    by simp
  then show "uploadToSupermemory ?down (lit ''sm-key'') ?text
      = Inr \<lparr>success = False, documentId = None, error = Some (lit ''API error: 503'')\<rparr>"
    by (simp add: lit_def digits.simps)
  let ?idle = "\<lparr>ue_client = None, ue_uploadFile = Inl (Error (lit ''unused'')),
      ue_fetch = Inl (Error (lit ''unused''))\<rparr>"
  let ?none = "\<lparr>upload_file = (None :: nat option), upload_text = Some [],
      upload_title = lit ''cv'', upload_type = None, upload_container = None\<rparr>"
  show "uploadToSupermemory ?idle (lit ''sm-key'') ?none
      = Inr \<lparr>success = False, documentId = None,
             error = Some (lit ''Either file or text must be provided'')\<rparr>"
    using uploadToSupermemory_outcomes [where env = ?idle and options = ?none
        and apiKey = "lit ''sm-key''"]
    by (simp add: truthy_def)
qed

text \<open>
  The claim as stated fails when the client constructor throws and neither a file nor a
  text is provided: the two promised error messages differ, and the code, whose constructor
  call is inside the \<open>try\<close>, answers with the message of the thrown value.
\<close>

theorem constructor_throws_counterexample:
  "uploadToSupermemory
     \<lparr>ue_client = Some (Error (lit ''The API key is missing'')),
      ue_uploadFile = Inl (Error (lit ''unused'')), ue_fetch = Inl (Error (lit ''unused''))\<rparr>
     []
     \<lparr>upload_file = (None :: nat option), upload_text = None,
      upload_title = lit ''cv'', upload_type = None, upload_container = None\<rparr>
   = Inr \<lparr>success = False, documentId = None, error = Some (lit ''The API key is missing'')\<rparr> \<and>
   lit ''The API key is missing'' \<noteq> lit ''Either file or text must be provided''"
  by (simp add: uploadToSupermemory_def upload_try_def Error_def or_default_def lit_def)

section \<open>Trimming and the current user turn\<close>

lemma trim_nonempty: "s \<noteq> [] \<Longrightarrow> \<not> isWhiteSpace (hd s) \<Longrightarrow> trim s \<noteq> []"
  by (cases s) (auto simp: trim_empty_iff)

lemma trim_keeps_prefix:
  assumes "a \<noteq> []" and "\<not> isWhiteSpace (hd a)" and "\<not> isWhiteSpace (last a)"
  shows "\<exists>rest. trim (a @ x) = a @ rest"
proof -
  from assms have front: "dropWhile isWhiteSpace (a @ x) = a @ x"
    by (cases a) simp_all
  from assms have rear: "dropWhile isWhiteSpace (rev a) = rev a"
    by (cases a rule: rev_cases) simp_all
  have "dropWhile isWhiteSpace (rev x @ rev a)
          = (if \<forall>c \<in> set (rev x). isWhiteSpace c then rev a else dropWhile isWhiteSpace (rev x) @ rev a)"
    using rear by (simp add: dropWhile_append)
  then have "trim (a @ x)
          = (if \<forall>c \<in> set (rev x). isWhiteSpace c then a else a @ rev (dropWhile isWhiteSpace (rev x)))"
    by (simp add: trim_def front)
  then show ?thesis
    by (cases "\<forall>c \<in> set (rev x). isWhiteSpace c") auto
qed

lemma fallbackPrompt_ends: "fallbackPrompt \<noteq> [] \<and> \<not> isWhiteSpace (hd fallbackPrompt) \<and> \<not> isWhiteSpace (last fallbackPrompt)"
  by (simp add: fallbackPrompt_def lit_def isWhiteSpace_def)

lemma contextPrompt_hd: "contextPrompt ctx \<noteq> [] \<and> \<not> isWhiteSpace (hd (contextPrompt ctx))"
  by (simp add: contextPrompt_def fallbackPrompt_def lit_def isWhiteSpace_def)

lemma userTurn_trim: "trim (out_content (userTurn ctx msg)) \<noteq> []"
  using contextPrompt_hd [of ctx] by (intro trim_nonempty) (simp_all add: userTurn_def)

lemma find_append_miss:
  "\<not> P y \<Longrightarrow> List.find P (xs @ [y]) = List.find P xs"
  by (induction xs) simp_all

lemma user_neq_system: "lit ''user'' \<noteq> lit ''system''"
  by (simp add: lit_def)

lemma simplifiedMessages_userTurn:
  assumes "\<forall>m \<in> set ms. trim (out_content m) = out_content m \<and> out_content m \<noteq> []"
  shows "simplifiedMessages (ms @ [userTurn ctx msg])
     = (case List.find (\<lambda>m. out_role m = lit ''system'') ms of None \<Rightarrow> [] | Some s \<Rightarrow> [s])
       @ [\<lparr>out_role = lit ''user'', out_content = trim (out_content (userTurn ctx msg))\<rparr>]"
proof -
  have role: "out_role (userTurn ctx msg) = lit ''user''"
    by (simp add: userTurn_def)
  have sys: "List.find (\<lambda>m. out_role m = lit ''system'') (ms @ [userTurn ctx msg])
           = List.find (\<lambda>m. out_role m = lit ''system'') ms"
    by (rule find_append_miss) (simp add: role user_neq_system)
  have "(case List.find (\<lambda>m. out_role m = lit ''system'') ms of
            None \<Rightarrow> []
          | Some systemMsg \<Rightarrow>
              if trim (out_content systemMsg) = [] then []
              else [\<lparr>out_role = lit ''system'', out_content = trim (out_content systemMsg)\<rparr>])
        = (case List.find (\<lambda>m. out_role m = lit ''system'') ms of None \<Rightarrow> [] | Some s \<Rightarrow> [s])"
  proof (cases "List.find (\<lambda>m. out_role m = lit ''system'') ms")
    case None
    then show ?thesis by simp
  next
    case (Some s)
    then have "s \<in> set ms" and "out_role s = lit ''system''"
      by (auto simp: find_Some_iff)
    with assms Some show ?thesis
      by auto
  qed
  then show ?thesis
    by (simp add: simplifiedMessages_def sys role userTurn_trim)
qed

lemma backend_messages_openrouter:
  assumes "llmProvider (bh_config h) = lit ''openrouter''"
  shows "backend_messages h ctx msg hist
           = (case List.find (\<lambda>m. out_role m = lit ''system'') (processedHistory hist) of
                None \<Rightarrow> [] | Some s \<Rightarrow> [s])
             @ [\<lparr>out_role = lit ''user'', out_content = trim (out_content (userTurn ctx msg))\<rparr>]
         \<and> length (backend_messages h ctx msg hist) \<le> 2"
proof -
  have "\<forall>m \<in> set (processedHistory hist). trim (out_content m) = out_content m \<and> out_content m \<noteq> []"
    using processedHistory_output by blast
  then have "simplifiedMessages (processedHistory hist @ [userTurn ctx msg])
     = (case List.find (\<lambda>m. out_role m = lit ''system'') (processedHistory hist) of
          None \<Rightarrow> [] | Some s \<Rightarrow> [s])
       @ [\<lparr>out_role = lit ''user'', out_content = trim (out_content (userTurn ctx msg))\<rparr>]"
    by (rule simplifiedMessages_userTurn)
  with assms show ?thesis
    by (auto simp: backend_messages_def split: option.splits)
qed

section \<open>Unfolding a validated request\<close>

lemma manual_POST_valid:
  "msg \<noteq> [] \<Longrightarrow> sid \<noteq> [] \<Longrightarrow>
   manual_POST h env store (Inr \<lparr>message = Some msg, sessionId = Some sid, history = hist\<rparr>)
     = manual_serve h env store msg sid hist"
  by (simp add: manual_POST_def)

lemma router_POST_valid:
  "msg \<noteq> [] \<Longrightarrow> sid \<noteq> [] \<Longrightarrow> trim msg \<noteq> [] \<Longrightarrow>
   router_POST h env (Inr \<lparr>message = Some msg, sessionId = Some sid, history = hist\<rparr>)
     = router_serve h env msg sid hist"
  by (simp add: router_POST_def)

lemma backend_POST_valid:
  "msg \<noteq> [] \<Longrightarrow> sid \<noteq> [] \<Longrightarrow> trim msg \<noteq> [] \<Longrightarrow>
   backend_POST h env (Inr \<lparr>message = Some msg, sessionId = Some sid, history = hist\<rparr>)
     = backend_serve h env msg sid hist"
  by (simp add: backend_POST_def)

lemma backend_serve_calls:
  "se_search env = SearchReturns results \<Longrightarrow> backend_getProviderModel h = Inr pm \<Longrightarrow>
   outgoing (snd (backend_serve h env msg sid hist))
     = [backend_messages h (docContext (case results of None \<Rightarrow> [] | Some ds \<Rightarrow> ds)) msg hist]"
  by (simp add: backend_serve_def Let_def split: stream_outcome.splits option.splits)

lemma backend_serve_buffered:
  "se_search env = SearchReturns results \<Longrightarrow> backend_getProviderModel h = Inr pm \<Longrightarrow>
   se_stream env = StreamResult chunks None \<Longrightarrow> bh_streaming h = False \<Longrightarrow>
   fst (backend_serve h env msg sid hist) = Inr (chatJson (concat chunks) sid None)"
  by (simp add: backend_serve_def Let_def)

lemma router_serve_calls:
  "router_getProviderModel h = Inr pm \<Longrightarrow>
   outgoing (snd (router_serve h env msg sid hist))
     = [routerHistory hist @ [\<lparr>out_role = lit ''user'', out_content = trim msg\<rparr>]]"
  by (simp add: router_serve_def Let_def split: stream_outcome.splits option.splits)

lemma router_serve_buffered_empty:
  "router_getProviderModel h = Inr pm \<Longrightarrow> se_stream env = StreamResult chunks None \<Longrightarrow>
   rh_streaming h = False \<Longrightarrow> trim (concat chunks) = [] \<Longrightarrow>
   fst (router_serve h env msg sid hist)
     = Inr (chatJson emptyAnswer sid (Some (lit ''Empty response from LLM'')))"
  by (simp add: router_serve_def Let_def)

lemma manual_serve_calls:
  "me_search env = SearchReturns results \<Longrightarrow>
   outgoing (snd (snd (manual_serve h env store msg sid hist)))
     = [map (\<lambda>m. \<lparr>out_role = role m, out_content = content m\<rparr>)
          (if length hist > 0 then hist else (case store sid of None \<Rightarrow> [] | Some stored \<Rightarrow> stored))
        @ [userTurn (docContext (case results of None \<Rightarrow> [] | Some ds \<Rightarrow> ds)) msg]]"
  by (simp add: manual_serve_def Let_def split: create_outcome.splits)

lemma manual_serve_answered:
  "me_search env = SearchReturns results \<Longrightarrow> me_create env = CreateReturns blocks \<Longrightarrow>
   status (fst (manual_serve h env store msg sid hist)) = 200"
  by (simp add: manual_serve_def Let_def)

lemma docContext_Nil: "docContext [] = []"
  by (simp add: docContext_def)

lemma userTurn_fallback:
  "userTurn [] msg
     = \<lparr>out_role = lit ''user'', out_content = fallbackPrompt @ nl @ nl @ lit ''Question: '' @ msg\<rparr>"
  by (simp add: userTurn_def contextPrompt_def)

section \<open>The example inputs evaluated\<close>

lemma hello_trim: "lit ''hello'' \<noteq> [] \<and> trim (lit ''hello'') = lit ''hello''"
  by (simp add: trim_def lit_def isWhiteSpace_def)

lemma blank_trim: "lit ''   '' \<noteq> [] \<and> trim (lit ''   '') = []"
  by (simp add: trim_def lit_def isWhiteSpace_def)

lemma s1_nonempty: "lit ''s1'' \<noteq> []"
  by (simp add: lit_def)

lemma question_hello_trim:
  "trim (fallbackPrompt @ nl @ nl @ lit ''Question: '' @ lit ''hello'')
     = fallbackPrompt @ nl @ nl @ lit ''Question: '' @ lit ''hello''"
  by (simp add: trim_def lit_def isWhiteSpace_def fallbackPrompt_def nl_def)

lemma exampleOutgoing_clean:
  "\<forall>m \<in> set exampleOutgoing.
     validRole (out_role m) \<and> out_content m \<noteq> [] \<and> trim (out_content m) = out_content m"
  by (simp add: exampleOutgoing_def exampleTurns_def validRole_def trim_def lit_def isWhiteSpace_def)

lemma exampleEntries_processed: "processedHistory exampleEntries = exampleOutgoing"
proof -
  have entries: "exampleEntries = map as_entry exampleOutgoing"
    by (simp add: exampleEntries_def exampleOutgoing_def as_entry_def exampleTurns_def)
  show ?thesis
    unfolding entries by (rule processedHistory_fixed [OF exampleOutgoing_clean])
qed

lemma exampleHistory_filtered: "routerHistory exampleHistory = exampleOutgoing"
proof -
  have turns: "exampleHistory = map as_ChatMessage exampleOutgoing"
    by (simp add: exampleHistory_def exampleOutgoing_def as_ChatMessage_def exampleTurns_def)
  have "\<forall>m \<in> set exampleOutgoing.
     out_content m \<noteq> [] \<and> trim (out_content m) = out_content m"
    using exampleOutgoing_clean by blast
  then show ?thesis
    unfolding turns by (rule routerHistory_fixed)
qed

lemma exampleOutgoing_no_system:
  "List.find (\<lambda>m. out_role m = lit ''system'') exampleOutgoing = None"
  by (simp add: exampleOutgoing_def exampleTurns_def lit_def)

lemma exampleOutgoing_length: "length exampleOutgoing = 5"
  by (simp add: exampleOutgoing_def exampleTurns_def)

lemma systemEntry_processed:
  "processedHistory [systemEntry] = [\<lparr>out_role = lit ''system'', out_content = lit ''Be brief.''\<rparr>]"
  by (simp add: processedHistory_def systemEntry_def validRole_def trim_def lit_def isWhiteSpace_def)

lemma exampleBackend_model:
  "backend_getProviderModel (exampleBackend (lit ''openrouter'') stream)
     = Inr \<lparr>pm_sdk = OpenAISDK, pm_apiKey = Some (lit ''llm-key''),
            pm_baseURL = Some (lit ''https://openrouter.ai/api/v1''),
            pm_headers = [(lit ''HTTP-Referer'', Some (lit ''https://portfolio-sdk.com'')),
                          (lit ''X-Title'', Some (lit ''Portfolio Chat''))],
            pm_model = getDefaultModel (lit ''openrouter'')\<rparr>"
  "backend_getProviderModel (exampleBackend (lit ''anthropic'') stream)
     = Inr \<lparr>pm_sdk = AnthropicSDK, pm_apiKey = Some (lit ''llm-key''), pm_baseURL = None,
            pm_headers = [], pm_model = getDefaultModel (lit ''anthropic'')\<rparr>"
  "backend_getProviderModel (exampleBackend (lit ''mistral'') stream)
     = Inl (Error (lit ''Unsupported provider: '' @ lit ''mistral''))"
  by (simp_all add: backend_getProviderModel_def exampleBackend_def exampleConfig_def
      or_default_def lit_def)

lemma exampleBackend_fields:
  "llmProvider (bh_config (exampleBackend provider stream)) = provider"
  "supermemoryContainer (bh_config (exampleBackend provider stream)) = Some (lit ''portfolio'')"
  "bh_streaming (exampleBackend provider stream) = stream"
  by (simp_all add: exampleBackend_def exampleConfig_def)

lemma exampleStream_fields:
  "se_search (exampleStream found chunks) = found"
  "se_stream (exampleStream found chunks) = StreamResult chunks None"
  by (simp_all add: exampleStream_def)

lemma exampleManual_fields:
  "mh_model exampleManual = lit ''claude-sonnet-4-20250514''"
  "mh_maxTokens exampleManual = 1024"
  "mh_temperature exampleManual = 7 / 10"
  "memory_container (memory (mh_config exampleManual)) = lit ''portfolio''"
  "llm_systemPrompt (llm (mh_config exampleManual)) = None"
  by (simp_all add: exampleManual_def createManualRAGHandler_def or_default_def)

lemma exampleReply_fields:
  "me_search (exampleReply found) = found"
  "me_create (exampleReply found) = CreateReturns [TextBlock (lit ''Hi'')]"
  by (simp_all add: exampleReply_def)

section \<open>The openrouter branch\<close>

lemma backend_POST_stream_call:
  assumes "StreamText call \<in> set (snd (backend_POST h env (Inr request)))"
  shows "\<exists>msg results. message request = Some msg \<and> se_search env = SearchReturns results \<and>
           sp_messages call
             = backend_messages h (docContext (case results of None \<Rightarrow> [] | Some ds \<Rightarrow> ds)) msg
                 (history request)"
  using assms
  by (auto simp: backend_POST_def backend_serve_def Let_def missingFields_def emptyMessage_def
      split: option.splits if_splits search_outcome.splits sum.splits stream_outcome.splits)

text \<open>
  C5, as the code has it. For every request to the read-only backend handler configured with
  the openrouter provider, whatever the history, every message list sent to the provider
  has at most 2 entries: the first entry of the filtered history whose role is system, if
  there is one, then the current user turn, whose content is the trimmed context-augmented
  message. Every user and assistant entry of the history is dropped.
\<close>

theorem openrouter_outgoing_messages:
  assumes "llmProvider (bh_config h) = lit ''openrouter''"
      and "StreamText call \<in> set (snd (backend_POST h env (Inr request)))"
  shows "length (sp_messages call) \<le> 2 \<and>
         (\<exists>msg results. message request = Some msg \<and> se_search env = SearchReturns results \<and>
            sp_messages call
              = (case List.find (\<lambda>m. out_role m = lit ''system'') (processedHistory (history request)) of
                   None \<Rightarrow> [] | Some s \<Rightarrow> [s])
                @ [\<lparr>out_role = lit ''user'',
                    out_content = trim (out_content
                      (userTurn (docContext (case results of None \<Rightarrow> [] | Some ds \<Rightarrow> ds)) msg))\<rparr>])"
  using backend_POST_stream_call [OF assms(2)] backend_messages_openrouter [OF assms(1)]
  by metis

theorem openrouter_outgoing_messages_witness:
  "outgoing (snd (backend_POST (exampleBackend (lit ''openrouter'') False)
       (exampleStream (SearchReturns (Some [])) [lit ''Hi''])
       (exampleChat (lit ''hello'') exampleEntries)))
   = [[\<lparr>out_role = lit ''user'',
        out_content = fallbackPrompt @ nl @ nl @ lit ''Question: '' @ lit ''hello''\<rparr>]]"
proof -
  let ?h = "exampleBackend (lit ''openrouter'') False"
  let ?env = "exampleStream (SearchReturns (Some [])) [lit ''Hi'']"
  let ?request = "\<lparr>message = Some (lit ''hello''), sessionId = Some (lit ''s1''),
                     history = exampleEntries\<rparr>"
  have provider: "llmProvider (bh_config ?h) = lit ''openrouter''"
    by (rule exampleBackend_fields)
  have post: "backend_POST ?h ?env (Inr ?request)
      = backend_serve ?h ?env (lit ''hello'') (lit ''s1'') exampleEntries"
    using hello_trim s1_nonempty by (simp add: backend_POST_valid)
  have "\<exists>call. snd (backend_POST ?h ?env (Inr ?request))
      = [SearchDocuments (searchParams (lit ''hello'') (Some (lit ''portfolio''))), StreamText call]"
    unfolding post
    by (simp add: backend_serve_def exampleStream_fields exampleBackend_model Let_def
        exampleBackend_fields)
  then obtain call where calls: "snd (backend_POST ?h ?env (Inr ?request))
      = [SearchDocuments (searchParams (lit ''hello'') (Some (lit ''portfolio''))), StreamText call]" ..
  then have "StreamText call \<in> set (snd (backend_POST ?h ?env (Inr ?request)))"
    by simp
  from openrouter_outgoing_messages [OF provider this]
  obtain msg results where m: "message ?request = Some msg"
    and r: "se_search ?env = SearchReturns results"
    and out: "sp_messages call
      = (case List.find (\<lambda>m. out_role m = lit ''system'') (processedHistory (history ?request)) of
           None \<Rightarrow> [] | Some s \<Rightarrow> [s])
        @ [\<lparr>out_role = lit ''user'',
            out_content = trim (out_content
              (userTurn (docContext (case results of None \<Rightarrow> [] | Some ds \<Rightarrow> ds)) msg))\<rparr>]"
    by blast
  from m have msg: "msg = lit ''hello''"
    by simp
  from r have results: "results = Some []"
    by (simp add: exampleStream_fields)
  from out have "sp_messages call = [\<lparr>out_role = lit ''user'',
        out_content = fallbackPrompt @ nl @ nl @ lit ''Question: '' @ lit ''hello''\<rparr>]"
    unfolding msg results
    by (simp add: exampleEntries_processed exampleOutgoing_no_system docContext_Nil
        userTurn_fallback question_hello_trim)
  with calls show ?thesis
    by (simp add: exampleChat_def)
qed

text \<open>
  The claim as stated fails twice. The backend handler keeps a history entry whose role is
  system; the proxied handler has no openrouter branch and sends the whole filtered history.
\<close>

theorem openrouter_history_counterexample:
  "outgoing (snd (backend_POST (exampleBackend (lit ''openrouter'') False)
       (exampleStream (SearchReturns (Some [])) [lit ''Hi''])
       (exampleChat (lit ''hello'') [systemEntry])))
   = [[\<lparr>out_role = lit ''system'', out_content = lit ''Be brief.''\<rparr>,
       \<lparr>out_role = lit ''user'',
        out_content = fallbackPrompt @ nl @ nl @ lit ''Question: '' @ lit ''hello''\<rparr>]] \<and>
   outgoing (snd (router_POST
       (exampleRouter (lit ''openrouter'') (MEMORY_ROUTER_URLS (lit ''openrouter'')) False)
       (exampleStream (SearchReturns (Some [])) [lit ''Hi''])
       (exampleChat (lit ''hello'') exampleHistory)))
   = [exampleOutgoing @ [\<lparr>out_role = lit ''user'', out_content = lit ''hello''\<rparr>]] \<and>
   length (exampleOutgoing @ [\<lparr>out_role = lit ''user'', out_content = lit ''hello''\<rparr>]) = 6"
proof (intro conjI)
  let ?h = "exampleBackend (lit ''openrouter'') False"
  let ?env = "exampleStream (SearchReturns (Some [])) [lit ''Hi'']"
  have provider: "llmProvider (bh_config ?h) = lit ''openrouter''"
    by (rule exampleBackend_fields)
  have "backend_messages ?h [] (lit ''hello'') [systemEntry]
      = [\<lparr>out_role = lit ''system'', out_content = lit ''Be brief.''\<rparr>,
         \<lparr>out_role = lit ''user'',
          out_content = fallbackPrompt @ nl @ nl @ lit ''Question: '' @ lit ''hello''\<rparr>]"
    using backend_messages_openrouter [OF provider, of "[]" "lit ''hello''" "[systemEntry]"]
    by (simp add: systemEntry_processed userTurn_fallback question_hello_trim)
  then show "outgoing (snd (backend_POST ?h ?env (exampleChat (lit ''hello'') [systemEntry])))
   = [[\<lparr>out_role = lit ''system'', out_content = lit ''Be brief.''\<rparr>,
       \<lparr>out_role = lit ''user'',
        out_content = fallbackPrompt @ nl @ nl @ lit ''Question: '' @ lit ''hello''\<rparr>]]"
    using hello_trim s1_nonempty
      backend_serve_calls [OF exampleStream_fields(1) exampleBackend_model(1)]
    by (simp add: exampleChat_def backend_POST_valid docContext_Nil)
next
  let ?h = "exampleRouter (lit ''openrouter'') (MEMORY_ROUTER_URLS (lit ''openrouter'')) False"
  have "\<exists>pm. router_getProviderModel ?h = Inr pm"
    by (simp add: router_getProviderModel_def exampleRouter_def exampleConfig_def lit_def)
  then obtain pm where "router_getProviderModel ?h = Inr pm" ..
  from router_serve_calls [OF this]
  show "outgoing (snd (router_POST ?h (exampleStream (SearchReturns (Some [])) [lit ''Hi''])
       (exampleChat (lit ''hello'') exampleHistory)))
   = [exampleOutgoing @ [\<lparr>out_role = lit ''user'', out_content = lit ''hello''\<rparr>]]"
    using hello_trim s1_nonempty
    by (simp add: exampleChat_def router_POST_valid exampleHistory_filtered)
next
  show "length (exampleOutgoing @ [\<lparr>out_role = lit ''user'', out_content = lit ''hello''\<rparr>]) = 6"
    by (simp add: exampleOutgoing_length)
qed

section \<open>Retrieval that finds nothing or fails\<close>

lemma fallback_prefix_kept: "\<exists>rest. trim (fallbackPrompt @ x) = fallbackPrompt @ rest"
  using fallbackPrompt_ends by (intro trim_keeps_prefix) simp_all

lemma backend_messages_fallback:
  "\<exists>before rest. backend_messages h [] msg hist
     = before @ [\<lparr>out_role = lit ''user'', out_content = fallbackPrompt @ rest\<rparr>]"
proof (cases "llmProvider (bh_config h) = lit ''openrouter''")
  case True
  obtain rest where "trim (fallbackPrompt @ nl @ nl @ lit ''Question: '' @ msg) = fallbackPrompt @ rest"
    using fallback_prefix_kept by blast
  with backend_messages_openrouter [OF True, of "[]" msg hist] show ?thesis
    by (auto simp: userTurn_fallback)
next
  case False
  then have "backend_messages h [] msg hist = processedHistory hist @ [userTurn [] msg]"
    by (simp add: backend_messages_def)
  then show ?thesis
    by (auto simp: userTurn_fallback)
qed

lemma manual_malformed:
  assumes "msg \<noteq> []" and "sid \<noteq> []" and "me_search env = SearchReturns None"
  shows "\<exists>before. outgoing (snd (snd (manual_POST h env store
           (Inr \<lparr>message = Some msg, sessionId = Some sid, history = hist\<rparr>))))
         = [before @ [\<lparr>out_role = lit ''user'',
                       out_content = fallbackPrompt @ nl @ nl @ lit ''Question: '' @ msg\<rparr>]]"
  using assms manual_serve_calls [OF assms(3), of h store msg sid hist]
  by (simp add: manual_POST_valid docContext_Nil userTurn_fallback)

lemma manual_thrown:
  assumes "msg \<noteq> []" and "sid \<noteq> []" and "me_search env = SearchThrows e"
  shows "manual_POST h env store (Inr \<lparr>message = Some msg, sessionId = Some sid, history = hist\<rparr>)
         = (manual_catch e, store,
            [SearchDocuments (searchParams msg (Some (memory_container (memory (mh_config h)))))])"
  using assms by (simp add: manual_POST_valid manual_serve_def Let_def)

lemma backend_malformed:
  assumes "msg \<noteq> []" and "sid \<noteq> []" and "trim msg \<noteq> []"
      and "se_search env = SearchReturns None" and "backend_getProviderModel h = Inr pm"
  shows "\<exists>before rest. outgoing (snd (backend_POST h env
           (Inr \<lparr>message = Some msg, sessionId = Some sid, history = hist\<rparr>)))
         = [before @ [\<lparr>out_role = lit ''user'', out_content = fallbackPrompt @ rest\<rparr>]]"
  using assms backend_serve_calls [OF assms(4,5), of msg sid hist]
    backend_messages_fallback [of h msg hist]
  by (simp add: backend_POST_valid docContext_Nil)

lemma backend_thrown:
  assumes "msg \<noteq> []" and "sid \<noteq> []" and "trim msg \<noteq> []" and "se_search env = SearchThrows e"
  shows "backend_POST h env (Inr \<lparr>message = Some msg, sessionId = Some sid, history = hist\<rparr>)
         = (backend_catch e,
            [SearchDocuments (searchParams msg (supermemoryContainer (bh_config h)))])"
  using assms by (simp add: backend_POST_valid backend_serve_def Let_def)

lemma Response_json_accepted:
  "200 \<le> s \<Longrightarrow> s \<le> 599 \<Longrightarrow> s \<noteq> 204 \<Longrightarrow> s \<noteq> 205 \<Longrightarrow> s \<noteq> 304 \<Longrightarrow>
   Response_json data s = Inr \<lparr>status = s, body = data\<rparr>"
  by (simp add: Response_json_def)

lemma Response_json_refused:
  "s < 200 \<or> (599 < s \<and> s < 65536) \<or> s = 204 \<or> s = 205 \<or> s = 304 \<Longrightarrow>
   \<exists>r. Response_json data s = Inl r"
  by (auto simp: Response_json_def)

text \<open>
  C1, as the code has it. For every chat request with a message and a session identifier
  handled by the Manual RAG handler or, when also the trimmed message is not empty, by the
  read-only backend handler: if the search returns a malformed (non-array) result, the
  request proceeds to the generation step with an empty context, the current user turn
  starting with the "answer from general knowledge" framing (for the backend handler when
  the provider is one it can build a model for). If the search call throws, the provider is
  not called and the catch block answers: the Manual RAG handler with a 500 that carries the
  message of the error; the backend handler with the status of the error (500 when it has
  none), which is returned as the error response when \<open>Response.json\<close> takes it (200 to
  599, not 204, 205 or 304), while for any other status below 65536 \<open>Response.json\<close>
  throws and POST rejects.
\<close>

theorem retrieval_failure_outcomes:
  assumes "msg \<noteq> []" and "sid \<noteq> []"
  shows "(me_search env = SearchReturns None \<longrightarrow>
            (\<exists>before. outgoing (snd (snd (manual_POST h env store
                 (Inr \<lparr>message = Some msg, sessionId = Some sid, history = hist\<rparr>))))
               = [before @ [\<lparr>out_role = lit ''user'',
                             out_content = fallbackPrompt @ nl @ nl @ lit ''Question: '' @ msg\<rparr>]])) \<and>
         (me_search env = SearchThrows e \<longrightarrow>
            manual_POST h env store (Inr \<lparr>message = Some msg, sessionId = Some sid, history = hist\<rparr>)
              = (\<lparr>status = 500,
                  body = ErrorJson (or_default (err_message e) (lit ''Internal server error''))\<rparr>,
                 store,
                 [SearchDocuments (searchParams msg (Some (memory_container (memory (mh_config h)))))])) \<and>
         (trim msg \<noteq> [] \<and> se_search benv = SearchReturns None \<and> backend_getProviderModel bh = Inr pm \<longrightarrow>
            (\<exists>before rest. outgoing (snd (backend_POST bh benv
                 (Inr \<lparr>message = Some msg, sessionId = Some sid, history = bhist\<rparr>)))
               = [before @ [\<lparr>out_role = lit ''user'', out_content = fallbackPrompt @ rest\<rparr>]])) \<and>
         (trim msg \<noteq> [] \<and> se_search benv = SearchThrows e \<and>
          200 \<le> status_or_500 e \<and> status_or_500 e \<le> 599 \<and> status_or_500 e \<noteq> 204 \<and>
          status_or_500 e \<noteq> 205 \<and> status_or_500 e \<noteq> 304 \<longrightarrow>
            backend_POST bh benv (Inr \<lparr>message = Some msg, sessionId = Some sid, history = bhist\<rparr>)
              = (Inr \<lparr>status = status_or_500 e,
                      body = ErrorJson
                        (if err_status e = Some 401
                           then lit ''Invalid API key. Please check your LLM or Supermemory API key.''
                         else or_default (err_message e) (lit ''Internal server error''))\<rparr>,
                 [SearchDocuments (searchParams msg (supermemoryContainer (bh_config bh)))])) \<and>
         (trim msg \<noteq> [] \<and> se_search benv = SearchThrows e \<and>
          (status_or_500 e < 200 \<or> (599 < status_or_500 e \<and> status_or_500 e < 65536) \<or>
           status_or_500 e = 204 \<or> status_or_500 e = 205 \<or> status_or_500 e = 304) \<longrightarrow>
            (\<exists>r. backend_POST bh benv
                    (Inr \<lparr>message = Some msg, sessionId = Some sid, history = bhist\<rparr>)
              = (Inl r,
                 [SearchDocuments (searchParams msg (supermemoryContainer (bh_config bh)))])))"
proof (intro conjI impI)
  assume "me_search env = SearchReturns None"
  with assms show "\<exists>before. outgoing (snd (snd (manual_POST h env store
                 (Inr \<lparr>message = Some msg, sessionId = Some sid, history = hist\<rparr>))))
               = [before @ [\<lparr>out_role = lit ''user'',
                             out_content = fallbackPrompt @ nl @ nl @ lit ''Question: '' @ msg\<rparr>]]"
    by (rule manual_malformed)
next
  assume "me_search env = SearchThrows e"
  with assms show "manual_POST h env store
        (Inr \<lparr>message = Some msg, sessionId = Some sid, history = hist\<rparr>)
      = (\<lparr>status = 500,
          body = ErrorJson (or_default (err_message e) (lit ''Internal server error''))\<rparr>,
         store,
         [SearchDocuments (searchParams msg (Some (memory_container (memory (mh_config h)))))])"
    by (simp add: manual_thrown manual_catch_def)
next
  assume "trim msg \<noteq> [] \<and> se_search benv = SearchReturns None \<and> backend_getProviderModel bh = Inr pm"
  with assms show "\<exists>before rest. outgoing (snd (backend_POST bh benv
                 (Inr \<lparr>message = Some msg, sessionId = Some sid, history = bhist\<rparr>)))
               = [before @ [\<lparr>out_role = lit ''user'', out_content = fallbackPrompt @ rest\<rparr>]]"
    using backend_malformed by blast
next
  assume a: "trim msg \<noteq> [] \<and> se_search benv = SearchThrows e \<and>
          200 \<le> status_or_500 e \<and> status_or_500 e \<le> 599 \<and> status_or_500 e \<noteq> 204 \<and>
          status_or_500 e \<noteq> 205 \<and> status_or_500 e \<noteq> 304"
  then have "backend_catch e
      = Inr \<lparr>status = status_or_500 e,
             body = ErrorJson
               (if err_status e = Some 401
                  then lit ''Invalid API key. Please check your LLM or Supermemory API key.''
                else or_default (err_message e) (lit ''Internal server error''))\<rparr>"
    unfolding backend_catch_def by (intro Response_json_accepted) simp_all
  with a assms show "backend_POST bh benv
        (Inr \<lparr>message = Some msg, sessionId = Some sid, history = bhist\<rparr>)
      = (Inr \<lparr>status = status_or_500 e,
              body = ErrorJson
                (if err_status e = Some 401
                   then lit ''Invalid API key. Please check your LLM or Supermemory API key.''
                 else or_default (err_message e) (lit ''Internal server error''))\<rparr>,
         [SearchDocuments (searchParams msg (supermemoryContainer (bh_config bh)))])"
    by (simp add: backend_thrown)
next
  assume a: "trim msg \<noteq> [] \<and> se_search benv = SearchThrows e \<and>
          (status_or_500 e < 200 \<or> (599 < status_or_500 e \<and> status_or_500 e < 65536) \<or>
           status_or_500 e = 204 \<or> status_or_500 e = 205 \<or> status_or_500 e = 304)"
  then have "\<exists>r. backend_catch e = Inl r"
    unfolding backend_catch_def by (intro Response_json_refused) simp
  with a assms show "\<exists>r. backend_POST bh benv
        (Inr \<lparr>message = Some msg, sessionId = Some sid, history = bhist\<rparr>)
      = (Inl r, [SearchDocuments (searchParams msg (supermemoryContainer (bh_config bh)))])"
    by (auto simp: backend_thrown)
qed

theorem retrieval_failure_outcomes_witness:
  "outgoing (snd (snd (manual_POST exampleManual (exampleReply (SearchReturns None)) Map.empty
       (exampleChat (lit ''hello'') []))))
     = [[\<lparr>out_role = lit ''user'',
          out_content = fallbackPrompt @ nl @ nl @ lit ''Question: '' @ lit ''hello''\<rparr>]] \<and>
   (\<exists>rest. outgoing (snd (backend_POST (exampleBackend (lit ''anthropic'') False)
       (exampleStream (SearchReturns None) [lit ''Hi'']) (exampleChat (lit ''hello'') [])))
     = [[\<lparr>out_role = lit ''user'', out_content = fallbackPrompt @ rest\<rparr>]]) \<and>
   backend_POST (exampleBackend (lit ''anthropic'') False)
       (exampleStream (SearchThrows \<lparr>err_message = Some (lit ''search failed''), err_status = Some 503\<rparr>)
          [lit ''Hi''])
       (exampleChat (lit ''hello'') [])
     = (Inr \<lparr>status = 503, body = ErrorJson (lit ''search failed'')\<rparr>,
        [SearchDocuments (searchParams (lit ''hello'') (Some (lit ''portfolio'')))]) \<and>
   backend_POST (exampleBackend (lit ''anthropic'') False)
       (exampleStream (SearchThrows \<lparr>err_message = Some (lit ''search failed''), err_status = Some 1000\<rparr>)
          [lit ''Hi''])
       (exampleChat (lit ''hello'') [])
     = (Inl RangeError,
        [SearchDocuments (searchParams (lit ''hello'') (Some (lit ''portfolio'')))])"
proof (intro conjI)
  let ?h = "exampleManual" and ?env = "exampleReply (SearchReturns None)"
  let ?bh = "exampleBackend (lit ''anthropic'') False"
  let ?benv = "exampleStream (SearchReturns None) [lit ''Hi'']"
  let ?pm = "\<lparr>pm_sdk = AnthropicSDK, pm_apiKey = Some (lit ''llm-key''), pm_baseURL = None,
            pm_headers = [], pm_model = getDefaultModel (lit ''anthropic'')\<rparr>"
  let ?e503 = "\<lparr>err_message = Some (lit ''search failed''), err_status = Some 503\<rparr>"
  let ?e1000 = "\<lparr>err_message = Some (lit ''search failed''), err_status = Some 1000\<rparr>"
  have msg: "lit ''hello'' \<noteq> []" and trimmed: "trim (lit ''hello'') \<noteq> []"
    using hello_trim by simp_all
  have failed: "or_default (Some (lit ''search failed'')) (lit ''Internal server error'')
      = lit ''search failed''"
    by (simp add: or_default_def lit_def)
  note outcomes = retrieval_failure_outcomes [OF msg s1_nonempty,
      where env = ?env and h = ?h and store = Map.empty and hist = "[]"
        and benv = ?benv and bh = ?bh and pm = ?pm and bhist = "[]"]
  from outcomes exampleReply_fields(1) [of "SearchReturns None"]
  obtain before where manual: "outgoing (snd (snd (manual_POST ?h ?env Map.empty
       (Inr \<lparr>message = Some (lit ''hello''), sessionId = Some (lit ''s1''), history = []\<rparr>))))
     = [before @ [\<lparr>out_role = lit ''user'',
          out_content = fallbackPrompt @ nl @ nl @ lit ''Question: '' @ lit ''hello''\<rparr>]]"
    by blast
  have "map length (outgoing (snd (snd (manual_POST ?h ?env Map.empty
       (Inr \<lparr>message = Some (lit ''hello''), sessionId = Some (lit ''s1''), history = []\<rparr>))))) = [1]"
    using msg s1_nonempty manual_serve_calls [OF exampleReply_fields(1)]
    by (simp add: manual_POST_valid)
  with manual have "before = []"
    by simp
  with manual show "outgoing (snd (snd (manual_POST ?h ?env Map.empty
       (exampleChat (lit ''hello'') []))))
     = [[\<lparr>out_role = lit ''user'',
          out_content = fallbackPrompt @ nl @ nl @ lit ''Question: '' @ lit ''hello''\<rparr>]]"
    by (simp add: exampleChat_def)
  from outcomes trimmed exampleStream_fields(1) [of "SearchReturns None"] exampleBackend_model(2) [of False]
  obtain before rest where backend: "outgoing (snd (backend_POST ?bh ?benv
       (Inr \<lparr>message = Some (lit ''hello''), sessionId = Some (lit ''s1''), history = []\<rparr>)))
     = [before @ [\<lparr>out_role = lit ''user'', out_content = fallbackPrompt @ rest\<rparr>]]"
    by blast
  have "anthropic": "lit ''anthropic'' \<noteq> lit ''openrouter''"
    by (simp add: lit_def)
  have "map length (outgoing (snd (backend_POST ?bh ?benv
       (Inr \<lparr>message = Some (lit ''hello''), sessionId = Some (lit ''s1''), history = []\<rparr>)))) = [1]"
    using msg trimmed s1_nonempty "anthropic"
      backend_serve_calls [OF exampleStream_fields(1) exampleBackend_model(2)]
    by (simp add: backend_POST_valid backend_messages_def exampleBackend_fields processedHistory_def)
  with backend have "before = []"
    by simp
  with backend have "outgoing (snd (backend_POST ?bh ?benv (exampleChat (lit ''hello'') [])))
     = [[\<lparr>out_role = lit ''user'', out_content = fallbackPrompt @ rest\<rparr>]]"
    by (simp add: exampleChat_def)
  then show "\<exists>rest. outgoing (snd (backend_POST ?bh ?benv (exampleChat (lit ''hello'') [])))
     = [[\<lparr>out_role = lit ''user'', out_content = fallbackPrompt @ rest\<rparr>]]" ..
  have "status_or_500 ?e503 = 503"
    by (simp add: status_or_500_def)
  with retrieval_failure_outcomes [OF msg s1_nonempty,
      where e = ?e503 and benv = "exampleStream (SearchThrows ?e503) [lit ''Hi'']" and bh = ?bh
        and bhist = "[]" and env = ?env and h = ?h and store = Map.empty and hist = "[]"
        and pm = ?pm]
    trimmed exampleStream_fields(1) [of "SearchThrows ?e503"]
  show "backend_POST ?bh (exampleStream (SearchThrows ?e503) [lit ''Hi'']) (exampleChat (lit ''hello'') [])
     = (Inr \<lparr>status = 503, body = ErrorJson (lit ''search failed'')\<rparr>,
        [SearchDocuments (searchParams (lit ''hello'') (Some (lit ''portfolio'')))])"
    by (simp add: exampleChat_def exampleBackend_fields failed)
  have "status_or_500 ?e1000 = 1000"
    by (simp add: status_or_500_def)
  with retrieval_failure_outcomes [OF msg s1_nonempty,
      where e = ?e1000 and benv = "exampleStream (SearchThrows ?e1000) [lit ''Hi'']" and bh = ?bh
        and bhist = "[]" and env = ?env and h = ?h and store = Map.empty and hist = "[]"
        and pm = ?pm]
    trimmed exampleStream_fields(1) [of "SearchThrows ?e1000"]
  obtain r where rejected: "backend_POST ?bh (exampleStream (SearchThrows ?e1000) [lit ''Hi''])
       (Inr \<lparr>message = Some (lit ''hello''), sessionId = Some (lit ''s1''), history = []\<rparr>)
     = (Inl r, [SearchDocuments (searchParams (lit ''hello'') (Some (lit ''portfolio'')))])"
    by (auto simp: exampleBackend_fields)
  have "backend_catch ?e1000 = Inl RangeError"
    by (simp add: backend_catch_def Response_json_def status_or_500_def)
  then have "fst (backend_POST ?bh (exampleStream (SearchThrows ?e1000) [lit ''Hi''])
       (Inr \<lparr>message = Some (lit ''hello''), sessionId = Some (lit ''s1''), history = []\<rparr>))
     = Inl RangeError"
    using backend_thrown [OF msg s1_nonempty trimmed exampleStream_fields(1)] by simp
  with rejected show "backend_POST ?bh (exampleStream (SearchThrows ?e1000) [lit ''Hi''])
       (exampleChat (lit ''hello'') [])
     = (Inl RangeError,
        [SearchDocuments (searchParams (lit ''hello'') (Some (lit ''portfolio'')))])"
    by (simp add: exampleChat_def)
qed

text \<open>
  The claim as stated fails when the search call throws: both retrieving handlers answer
  with the error of the search, status 500, and the provider is not called.
\<close>

theorem search_throws_counterexample:
  "manual_POST exampleManual (exampleReply (SearchThrows (Error (lit ''search failed'')))) Map.empty
       (exampleChat (lit ''hello'') [])
     = (\<lparr>status = 500, body = ErrorJson (lit ''search failed'')\<rparr>, Map.empty,
        [SearchDocuments (searchParams (lit ''hello'') (Some (lit ''portfolio'')))]) \<and>
   backend_POST (exampleBackend (lit ''anthropic'') False)
       (exampleStream (SearchThrows (Error (lit ''search failed''))) [lit ''Hi''])
       (exampleChat (lit ''hello'') [])
     = (Inr \<lparr>status = 500, body = ErrorJson (lit ''search failed'')\<rparr>,
        [SearchDocuments (searchParams (lit ''hello'') (Some (lit ''portfolio'')))])"
proof -
  have msg: "lit ''hello'' \<noteq> []" and trimmed: "trim (lit ''hello'') \<noteq> []"
    using hello_trim by simp_all
  have failed: "lit ''search failed'' \<noteq> []"
    by (simp add: lit_def)
  have "manual_catch (Error (lit ''search failed''))
      = \<lparr>status = 500, body = ErrorJson (lit ''search failed'')\<rparr>"
    using failed by (simp add: manual_catch_def Error_def or_default_def)
  moreover have "backend_catch (Error (lit ''search failed''))
      = Inr \<lparr>status = 500, body = ErrorJson (lit ''search failed'')\<rparr>"
    using failed
    by (simp add: backend_catch_def Response_json_def Error_def or_default_def status_or_500_def)
  ultimately show ?thesis
    using manual_thrown [OF msg s1_nonempty exampleReply_fields(1)]
      backend_thrown [OF msg s1_nonempty trimmed exampleStream_fields(1)]
    by (simp add: exampleChat_def exampleManual_fields exampleBackend_fields)
qed

section \<open>The user identifier header of the proxied handler\<close>

lemma router_user_id_literal:
  "router_getProviderModel h = Inr pm \<Longrightarrow>
   header pm (lit ''x-sm-user-id'') = Some (lit ''config.supermemoryContainer'')"
  by (auto simp: router_getProviderModel_def Let_def header_def router_headers_def
      split: if_splits)

lemma exampleRouter_created:
  "createPortfolioHandler (exampleConfig (lit ''anthropic'') True)
     = Inr (exampleRouter (lit ''anthropic'') (MEMORY_ROUTER_URLS (lit ''anthropic'')) True)"
  by (simp add: createPortfolioHandler_def exampleConfig_def exampleRouter_def truthy_def
      or_default_def MEMORY_ROUTER_URLS_def getDefaultModel_def lit_def)

text \<open>
  C2. The claim asks that the x-sm-user-id header of the proxied handler equals the
  configured supermemoryContainer. For the configuration with the container \<open>portfolio\<close>
  the handler is built, and the header of its provider model is the string
  \<open>config.supermemoryContainer\<close>, which is not the container.
\<close>

theorem user_id_header_is_a_literal:
  "createPortfolioHandler (exampleConfig (lit ''anthropic'') True)
     = Inr (exampleRouter (lit ''anthropic'') (MEMORY_ROUTER_URLS (lit ''anthropic'')) True) \<and>
   supermemoryContainer (exampleConfig (lit ''anthropic'') True) = Some (lit ''portfolio'') \<and>
   (\<exists>pm. router_getProviderModel
            (exampleRouter (lit ''anthropic'') (MEMORY_ROUTER_URLS (lit ''anthropic'')) True) = Inr pm \<and>
         header pm (lit ''x-sm-user-id'') = Some (lit ''config.supermemoryContainer'')) \<and>
   lit ''config.supermemoryContainer'' \<noteq> lit ''portfolio''"
proof (intro conjI)
  show "createPortfolioHandler (exampleConfig (lit ''anthropic'') True)
     = Inr (exampleRouter (lit ''anthropic'') (MEMORY_ROUTER_URLS (lit ''anthropic'')) True)"
    by (rule exampleRouter_created)
  show "supermemoryContainer (exampleConfig (lit ''anthropic'') True) = Some (lit ''portfolio'')"
    by (simp add: exampleConfig_def)
  have "\<exists>pm. router_getProviderModel
            (exampleRouter (lit ''anthropic'') (MEMORY_ROUTER_URLS (lit ''anthropic'')) True) = Inr pm"
    by (simp add: router_getProviderModel_def exampleRouter_def exampleConfig_def)
  then show "\<exists>pm. router_getProviderModel
            (exampleRouter (lit ''anthropic'') (MEMORY_ROUTER_URLS (lit ''anthropic'')) True) = Inr pm \<and>
         header pm (lit ''x-sm-user-id'') = Some (lit ''config.supermemoryContainer'')"
    using router_user_id_literal by blast
  show "lit ''config.supermemoryContainer'' \<noteq> lit ''portfolio''"
    by (simp add: lit_def)
qed

section \<open>Blank messages\<close>

lemma router_rejects_blank:
  "trim msg = [] \<Longrightarrow>
   snd (router_POST h env (Inr \<lparr>message = Some msg, sessionId = sid, history = hist\<rparr>)) = [] \<and>
   (\<exists>r. fst (router_POST h env (Inr \<lparr>message = Some msg, sessionId = sid, history = hist\<rparr>)) = Inr r
        \<and> status r = 400)"
  by (simp add: router_POST_def missingFields_def emptyMessage_def split: option.splits)

lemma backend_rejects_blank:
  "trim msg = [] \<Longrightarrow>
   snd (backend_POST h env (Inr \<lparr>message = Some msg, sessionId = sid, history = hist\<rparr>)) = [] \<and>
   (\<exists>r. fst (backend_POST h env (Inr \<lparr>message = Some msg, sessionId = sid, history = hist\<rparr>)) = Inr r
        \<and> status r = 400)"
  by (simp add: backend_POST_def missingFields_def emptyMessage_def split: option.splits)

text \<open>
  C3. The claim asks that every handler rejects a message that is empty after trimming, with
  a 400 and before retrieval and generation. The proxied and the backend handler do (the two
  lemmas above). The Manual RAG handler answers the message of three spaces with a 200 after
  calling the search and the provider.
\<close>

theorem manual_accepts_blank_message:
  "trim (lit ''   '') = [] \<and>
   status (fst (manual_POST exampleManual (exampleReply (SearchReturns (Some []))) Map.empty
       (exampleChat (lit ''   '') []))) = 200 \<and>
   snd (snd (manual_POST exampleManual (exampleReply (SearchReturns (Some []))) Map.empty
       (exampleChat (lit ''   '') [])))
     = [SearchDocuments (searchParams (lit ''   '') (Some (lit ''portfolio''))),
        MessagesCreate
          \<lparr>cp_model = lit ''claude-sonnet-4-20250514'', cp_max_tokens = 1024,
           cp_temperature = 7 / 10, cp_system = defaultSystemPrompt,
           cp_messages = [userTurn [] (lit ''   '')]\<rparr>]"
proof -
  have post: "manual_POST exampleManual (exampleReply (SearchReturns (Some []))) Map.empty
       (exampleChat (lit ''   '') [])
     = manual_serve exampleManual (exampleReply (SearchReturns (Some []))) Map.empty
         (lit ''   '') (lit ''s1'') []"
    using blank_trim s1_nonempty by (simp add: exampleChat_def manual_POST_valid)
  show ?thesis
    unfolding post using blank_trim
    by (simp add: manual_serve_def exampleReply_fields exampleManual_fields Let_def
        docContext_Nil or_default_def)
qed

section \<open>Empty replies in buffered mode\<close>

lemma emptyAnswer_nonempty: "emptyAnswer \<noteq> []"
  by (simp add: emptyAnswer_def lit_def)

lemma router_reports_empty_reply:
  assumes "msg \<noteq> []" and "sid \<noteq> []" and "trim msg \<noteq> []"
      and "router_getProviderModel h = Inr pm" and "rh_streaming h = False"
      and "se_stream env = StreamResult chunks None" and "trim (concat chunks) = []"
  shows "fst (router_POST h env (Inr \<lparr>message = Some msg, sessionId = Some sid, history = hist\<rparr>))
         = Inr \<lparr>status = 200,
                body = ChatJson \<lparr>answer = emptyAnswer, sources = None, rsp_sessionId = sid,
                                 rsp_error = Some (lit ''Empty response from LLM'')\<rparr>\<rparr>"
  using assms router_serve_buffered_empty [OF assms(4,6,5,7)]
  by (simp add: router_POST_valid chatJson_def)

text \<open>
  C4. The claim asks that a buffered generation with an empty text gives a 200 whose answer
  is a diagnostic string and whose error field is set. The proxied handler does (the lemma
  above). The backend handler in buffered mode returns the empty text as the answer, with no
  error field.
\<close>

theorem backend_returns_empty_answer:
  "backend_POST (exampleBackend (lit ''anthropic'') False)
       (exampleStream (SearchReturns (Some [])) []) (exampleChat (lit ''hello'') [])
   = (Inr \<lparr>status = 200,
           body = ChatJson \<lparr>answer = [], sources = None, rsp_sessionId = lit ''s1'',
                            rsp_error = None\<rparr>\<rparr>,
      [SearchDocuments (searchParams (lit ''hello'') (Some (lit ''portfolio''))),
       StreamText \<lparr>sp_model = \<lparr>pm_sdk = AnthropicSDK, pm_apiKey = Some (lit ''llm-key''),
                                pm_baseURL = None, pm_headers = [],
                                pm_model = getDefaultModel (lit ''anthropic'')\<rparr>,
                   sp_system = defaultSystemPrompt,
                   sp_messages = [userTurn [] (lit ''hello'')],
                   sp_temperature = 7 / 10\<rparr>])"
proof -
  have post: "backend_POST (exampleBackend (lit ''anthropic'') False)
       (exampleStream (SearchReturns (Some [])) []) (exampleChat (lit ''hello'') [])
     = backend_serve (exampleBackend (lit ''anthropic'') False)
         (exampleStream (SearchReturns (Some [])) []) (lit ''hello'') (lit ''s1'') []"
    using hello_trim s1_nonempty by (simp add: exampleChat_def backend_POST_valid)
  have provider: "lit ''anthropic'' \<noteq> lit ''openrouter''"
    by (simp add: lit_def)
  have fields: "bh_temperature (exampleBackend (lit ''anthropic'') False) = 7 / 10"
    "systemPrompt (bh_config (exampleBackend (lit ''anthropic'') False)) = None"
    by (simp_all add: exampleBackend_def exampleConfig_def)
  show ?thesis
    unfolding post using provider
    by (simp add: backend_serve_def exampleStream_fields exampleBackend_model exampleBackend_fields
        fields Let_def docContext_Nil or_default_def backend_messages_def processedHistory_def
        chatJson_def)
qed

section \<open>Unsupported providers\<close>

lemma createPortfolioHandler_unsupported:
  assumes "truthy (llmApiKey config)" and "truthy (supermemoryApiKey config)"
      and "truthy (supermemoryContainer config)"
      and "MEMORY_ROUTER_URLS (llmProvider config) = Undefined"
  shows "createPortfolioHandler config
         = Inl (Error (lit ''Unsupported LLM provider: '' @ llmProvider config
                  @ lit ''. Supported: anthropic, openai, groq, openrouter, google''))"
  using assms by (simp add: createPortfolioHandler_def)

lemma createBackendHandler_example:
  "createBackendHandler (exampleConfig provider stream) = Inr (exampleBackend provider stream)"
  by (simp add: createBackendHandler_def exampleConfig_def exampleBackend_def truthy_def
      or_default_def getDefaultModel_def lit_def)

lemma createPortfolioHandler_inherited_key:
  "createPortfolioHandler (exampleConfig (lit ''constructor'') True)
     = Inr (exampleRouter (lit ''constructor'') Inherited True)"
  by (simp add: createPortfolioHandler_def exampleConfig_def exampleRouter_def truthy_def
      or_default_def MEMORY_ROUTER_URLS_def objectPrototypeKeys_def getDefaultModel_def lit_def)

text \<open>
  C9. The claim asks that construction fails for a provider outside the five. The proxied
  handler does so when the provider is not a property name either (the first lemma above;
  for \<open>constructor\<close> it builds a handler, the third lemma). createBackendHandler builds a
  handler for the provider \<open>mistral\<close>; the provider is refused when a request is handled,
  as a 500 whose message does not list the supported providers.
\<close>

theorem backend_accepts_unsupported_provider:
  "createBackendHandler (exampleConfig (lit ''mistral'') True)
     = Inr (exampleBackend (lit ''mistral'') True) \<and>
   backend_POST (exampleBackend (lit ''mistral'') True)
       (exampleStream (SearchReturns (Some [])) [lit ''Hi'']) (exampleChat (lit ''hello'') [])
     = (Inr \<lparr>status = 500, body = ErrorJson (lit ''Unsupported provider: '' @ lit ''mistral'')\<rparr>,
        [SearchDocuments (searchParams (lit ''hello'') (Some (lit ''portfolio'')))])"
proof
  show "createBackendHandler (exampleConfig (lit ''mistral'') True)
     = Inr (exampleBackend (lit ''mistral'') True)"
    by (rule createBackendHandler_example)
  have post: "backend_POST (exampleBackend (lit ''mistral'') True)
       (exampleStream (SearchReturns (Some [])) [lit ''Hi'']) (exampleChat (lit ''hello'') [])
     = backend_serve (exampleBackend (lit ''mistral'') True)
         (exampleStream (SearchReturns (Some [])) [lit ''Hi'']) (lit ''hello'') (lit ''s1'') []"
    using hello_trim s1_nonempty by (simp add: exampleChat_def backend_POST_valid)
  have caught: "backend_catch (Error (lit ''Unsupported provider: '' @ lit ''mistral''))
      = Inr \<lparr>status = 500, body = ErrorJson (lit ''Unsupported provider: '' @ lit ''mistral'')\<rparr>"
    by (simp add: backend_catch_def Response_json_def Error_def status_or_500_def or_default_def
        lit_def)
  show "backend_POST (exampleBackend (lit ''mistral'') True)
       (exampleStream (SearchReturns (Some [])) [lit ''Hi'']) (exampleChat (lit ''hello'') [])
     = (Inr \<lparr>status = 500, body = ErrorJson (lit ''Unsupported provider: '' @ lit ''mistral'')\<rparr>,
        [SearchDocuments (searchParams (lit ''hello'') (Some (lit ''portfolio'')))])"
    unfolding post
    by (simp add: backend_serve_def exampleStream_fields exampleBackend_model exampleBackend_fields
        Let_def caught)
qed

end
